theory Spec2Isabelle
  imports Main
begin

section \<open>Errors\<close>

text \<open>
  Go's \<open>error\<close> values as a datatype. \<open>ErrExt\<close> is an error handed back by a collaborator
  (runtime task, layer service, lease service, filesystem, signal parser) together with
  the errdefs kind the daemon can test it for. The other constructors are the errors the
  daemon builds itself: \<open>errNoSuchProcess\<close> (kill.go), \<open>errors.New\<close>/\<open>fmt.Errorf\<close> with a
  plain message (\<open>ErrNew\<close>), \<open>fmt.Errorf\<close> formatting another error with \<open>%v\<close>
  (\<open>ErrorfV\<close>), \<open>errors.Wrapf\<close> (\<open>Wrapf\<close>), the errdefs wrappers and the two context
  errors. A panic (index out of range) is the distinguished value \<open>Panic\<close>.
\<close>

datatype errkind = KNotFound | KConflict | KInvalidParameter | KSystem | KNotExist | KOther

datatype error =
    ErrExt errkind string
  | errNoSuchProcess int int
  | errNotRunning string
  | ErrNew string
  | ErrorfV string error
  | Wrapf error string
  | Conflict error
  | InvalidParameter error
  | System error
  | DeadlineExceeded
  | Canceled
  | Panic string

text \<open>
  \<open>errdefs.IsNotFound\<close>: the error, or the cause it wraps, is of the "not found" kind.
  \<open>errNoSuchProcess\<close> declares the \<open>NotFound()\<close> method (kill.go, line 27).
\<close>

fun IsNotFound :: "error \<Rightarrow> bool" where
  "IsNotFound (ErrExt k m) = (k = KNotFound)"
| "IsNotFound (errNoSuchProcess p s) = True"
| "IsNotFound (Wrapf e m) = IsNotFound e"
| "IsNotFound e = False"

text \<open>\<open>errors.As(err, &errNoSuchProcess{})\<close>: some error of the chain is an \<open>errNoSuchProcess\<close>.\<close>

fun As_errNoSuchProcess :: "error \<Rightarrow> bool" where
  "As_errNoSuchProcess (errNoSuchProcess p s) = True"
| "As_errNoSuchProcess (Wrapf e m) = As_errNoSuchProcess e"
| "As_errNoSuchProcess (Conflict e) = As_errNoSuchProcess e"
| "As_errNoSuchProcess (InvalidParameter e) = As_errNoSuchProcess e"
| "As_errNoSuchProcess (System e) = As_errNoSuchProcess e"
| "As_errNoSuchProcess e = False"

text \<open>
  What a function with result type \<open>error\<close> does: \<open>Some (Inr ())\<close> is the return of \<open>nil\<close>,
  \<open>Some (Inl e)\<close> the return of the error \<open>e\<close>, and \<open>None\<close> means that the call never
  returns (it stays blocked in a wait without deadline).
\<close>

type_synonym ret = "(error + unit) option"

abbreviation nil :: ret where
  "nil \<equiv> Some (Inr ())"

abbreviation fail :: "error \<Rightarrow> ret" where
  "fail e \<equiv> Some (Inl e)"

section \<open>The container, the daemon state around it, and the trace\<close>

record container =
  ID :: string
  Name :: string
  Pid :: int
  Running :: bool
  Paused :: bool
  Restarting :: bool
  Dead :: bool
  RemovalInProgress :: bool
  Removed :: bool
  HasBeenManuallyStopped :: bool
  RWLayer :: "nat option"
  Root :: string
  ProcessLabel :: string
  ConfigStopSignal :: string
  RemovalError :: "error option"

text \<open>
  Every call the code makes on a collaborator, and every entry into \<open>Kill\<close>, is recorded
  in order.
\<close>

datatype event =
    EvLock
  | EvUnlock
  | EvSetDead
  | EvCheckpointTo
  | EvExitOnNext
  | EvTaskKill int
  | EvGoWaitExit
  | EvTaskResume
  | EvLogEvent string
  | EvGoLogEvent string
  | EvLogKill int
  | EvKill
  | EvKillProcessDirectly
  | EvWait "int option"
  | EvStopCollection
  | EvOnlyStopCollection
  | EvReleaseLayer nat
  | EvLeaseDelete string
  | EvEnsureRemoveAll string
  | EvLinkIndexDelete
  | EvLinkIndexOnlyDelete
  | EvLinkIndexUnlink string
  | EvUpdateNetwork
  | EvReleaseLabel string
  | EvContainersDelete string
  | EvContainersOnlyDelete string
  | EvReplicaDelete
  | EvRemoveMountPoints bool
  | EvReleaseName string
  | EvSetRemovalError
  | EvOnlySetRemovalError
  | EvSetRemoved
  | EvStateCtrDel string
  | EvStateCtrOnlyDel string
  | EvUpdateSince
  | EvRecordsContainerId string
  | EvSetRemovalInProgress
  | EvResetRemovalInProgress
  | EvSignal int int

text \<open>
  The state the functions work on: the container object behind the pointer they are
  given, whether \<open>daemon.containers\<close> and \<open>daemon.containersReplica\<close> hold it, the process
  table of the operating system, and the trace.
\<close>

record world =
  ctr :: container
  registered :: bool
  replicated :: bool
  procs :: "nat list"
  trace :: "event list"

definition emit :: "event \<Rightarrow> world \<Rightarrow> world" where
  "emit e w = w\<lparr>trace := trace w @ [e]\<rparr>"

text \<open>
  The collaborators whose code is outside the source files, as parameters. Each answer
  may depend on the whole state, trace included, so that an answer can differ from one
  call to the next. \<open>exit_after\<close> is the time (in nanoseconds, from the moment of the
  call) after which the container's exit event is processed; \<open>None\<close>: it never is.
\<close>

record env =
  GOOS :: string
  ParseSignal :: "string \<Rightarrow> error + int"
  StopSignal :: "container \<Rightarrow> int"
  StopTimeout :: "container \<Rightarrow> int"
  StateString :: "container \<Rightarrow> string"
  IsShuttingDown :: "world \<Rightarrow> bool"
  GetRunningTask :: "world \<Rightarrow> error option"
  task_Kill :: "world \<Rightarrow> int \<Rightarrow> error option"
  exit_after :: "world \<Rightarrow> nat option"
  killProcessDirectly :: "world \<Rightarrow> error option"
  ReleaseLayer :: "world \<Rightarrow> nat \<Rightarrow> error option"
  UsesSnapshotter :: "world \<Rightarrow> bool"
  leases_Delete :: "world \<Rightarrow> string \<Rightarrow> error option"
  EnsureRemoveAll :: "world \<Rightarrow> string \<Rightarrow> error option"
  linkIndex_delete :: "world \<Rightarrow> string list"
  replica_GetID :: "world \<Rightarrow> string \<Rightarrow> error + string"
  GetParent :: "world \<Rightarrow> string \<Rightarrow> bool"
  EnumProcesses_err :: "world \<Rightarrow> error option"
  OpenProcess :: "world \<Rightarrow> int \<Rightarrow> error + unit"
  WaitForSingleObject :: "world \<Rightarrow> nat"
  FindProcess :: "int \<Rightarrow> error option"

section \<open>Time and contexts\<close>

text \<open>
  \<open>time.Duration\<close> is a signed 64-bit count of nanoseconds; a product wraps around.
\<close>

definition int64 :: "int \<Rightarrow> int" where
  "int64 x = (x + 2 ^ 63) mod 2 ^ 64 - 2 ^ 63"

definition Second :: int where
  "Second = 1000000000"

definition SIGKILL :: int where
  "SIGKILL = 9"

text \<open>
  The contexts that occur: \<open>context.Background()\<close> and \<open>context.TODO()\<close>, which are never
  done; \<open>context.WithTimeout(context.Background(), d)\<close>; \<open>context.WithCancel\<close> of the
  background context, whose cancel function the code only calls when it returns; and a
  caller's request context that its owner cancels after some time.
\<close>

datatype ctx = Background | TODO | WithTimeout int | WithCancel | CancelledAfter nat

fun done_at :: "ctx \<Rightarrow> (int \<times> error) option" where
  "done_at Background = None"
| "done_at TODO = None"
| "done_at (WithTimeout d) = Some (d, DeadlineExceeded)"
| "done_at WithCancel = None"
| "done_at (CancelledAfter t) = Some (int t, Canceled)"

datatype status = StatusOK | StatusErr error

text \<open>
  Modelled from the spec: \<open>container.Wait(ctx, WaitConditionNotRunning)\<close> is not among the
  source files. It waits for the not-running transition, bounded by the context: a
  container that is not running answers at once; the transition, when it comes before
  the context is done, clears \<open>Running\<close>; a context that is done first gives its error as
  the status; with a context that is never done and a transition that never comes, the
  wait does not return.
\<close>

definition SetStopped :: "world \<Rightarrow> world" where
  "SetStopped w = w\<lparr>ctr := (ctr w)\<lparr>Running := False, Paused := False\<rparr>\<rparr>"

definition Wait :: "env \<Rightarrow> ctx \<Rightarrow> world \<Rightarrow> status option \<times> world" where
  "Wait en c w0 =
     (let w = emit (EvWait (map_option fst (done_at c))) w0 in
      if \<not> Running (ctr w) then (Some StatusOK, w)
      else case done_at c of
             None \<Rightarrow> (case exit_after en w of
                         None \<Rightarrow> (None, w)
                       | Some t \<Rightarrow> (Some StatusOK, SetStopped w))
           | Some (d, e) \<Rightarrow> (case exit_after en w of
                         None \<Rightarrow> (Some (StatusErr e), w)
                       | Some t \<Rightarrow> if int t < d then (Some StatusOK, SetStopped w)
                                   else (Some (StatusErr e), w)))"

section \<open>kill.go\<close>

text \<open>
  \<open>killWithSignal\<close>, lines 100 to 148: what follows once the task is resolved and
  \<open>unpause\<close> is computed. The container lock taken at line 75 is released by the deferred
  \<open>Unlock\<close> on every return. The result of \<open>CheckpointTo\<close> (line 102) is dropped by the
  code, that of \<open>Resume\<close> is only logged. When the task reports "not found", the goroutine
  of lines 118 to 131 is started (\<open>EvGoWaitExit\<close>) and the function goes on.
\<close>

definition killWithSignal_deliver :: "env \<Rightarrow> int \<Rightarrow> bool \<Rightarrow> world \<Rightarrow> (error + unit) \<times> world" where
  "killWithSignal_deliver en stopSignal unpause w0 =
     (let w1 = (if \<not> IsShuttingDown en w0
                then emit EvCheckpointTo (w0\<lparr>ctr := (ctr w0)\<lparr>HasBeenManuallyStopped := True\<rparr>\<rparr>)
                else w0) in
      if Restarting (ctr w1) then (Inr (), emit EvUnlock w1)
      else
        let w2 = emit (EvTaskKill stopSignal) w1 in
        case task_Kill en w2 stopSignal of
          Some e \<Rightarrow>
            if IsNotFound e
            then (Inr (), emit EvUnlock (emit (EvLogKill stopSignal) (emit EvGoWaitExit w2)))
            else (Inl (Wrapf e (''Cannot kill container '' @ ID (ctr w2))), emit EvUnlock w2)
        | None \<Rightarrow>
            let w3 = (if unpause then emit EvTaskResume w2 else w2)
            in (Inr (), emit EvUnlock (emit (EvLogKill stopSignal) w3)))"

definition killWithSignal :: "env \<Rightarrow> int \<Rightarrow> world \<Rightarrow> (error + unit) \<times> world" where
  "killWithSignal en stopSignal w0 =
     (let w = emit EvLock w0 in
      case GetRunningTask en w of
        Some e \<Rightarrow> (Inl e, emit EvUnlock w)
      | None \<Rightarrow>
          if ConfigStopSignal (ctr w) \<noteq> [] \<and> stopSignal \<noteq> SIGKILL then
            (case ParseSignal en (ConfigStopSignal (ctr w)) of
               Inl e \<Rightarrow> (Inl e, emit EvUnlock w)
             | Inr containerStopSignal \<Rightarrow>
                 if containerStopSignal = stopSignal
                 then killWithSignal_deliver en stopSignal (Paused (ctr w)) (emit EvExitOnNext w)
                 else killWithSignal_deliver en stopSignal False w)
          else killWithSignal_deliver en stopSignal (Paused (ctr w)) (emit EvExitOnNext w))"

definition killPossiblyDeadProcess :: "env \<Rightarrow> int \<Rightarrow> world \<Rightarrow> (error + unit) \<times> world" where
  "killPossiblyDeadProcess en sig w0 =
     (case killWithSignal en sig w0 of
        (Inl e, w) \<Rightarrow> if IsNotFound e then (Inl (errNoSuchProcess (Pid (ctr w)) sig), w)
                      else (Inl e, w)
      | (Inr u, w) \<Rightarrow> (Inr u, w))"

definition waitTimeout :: "env \<Rightarrow> int" where
  "waitTimeout en = (if GOOS en = ''windows'' then 75 * Second else 10 * Second)"

text \<open>\<open>Kill\<close>, lines 183 to 197: the direct signal and the last wait.\<close>

definition Kill_direct :: "env \<Rightarrow> world \<Rightarrow> ret \<times> world" where
  "Kill_direct en w0 =
     (let w = emit EvKillProcessDirectly w0 in
      case killProcessDirectly en w of
        Some e \<Rightarrow> if As_errNoSuchProcess e then (nil, w) else (fail e, w)
      | None \<Rightarrow>
          (case Wait en (WithTimeout (2 * Second)) w of
             (None, w2) \<Rightarrow> (None, w2)
           | (Some StatusOK, w2) \<Rightarrow> (nil, w2)
           | (Some (StatusErr e), w2) \<Rightarrow>
               (fail (ErrNew ''tried to kill container, but did not receive an exit event''), w2)))"

definition Kill :: "env \<Rightarrow> world \<Rightarrow> ret \<times> world" where
  "Kill en w0 =
     (let w = emit EvKill w0 in
      if \<not> Running (ctr w) then (fail (errNotRunning (ID (ctr w))), w)
      else
        case killPossiblyDeadProcess en SIGKILL w of
          (r, w1) \<Rightarrow>
            if (case r of Inl e \<Rightarrow> As_errNoSuchProcess e | Inr u \<Rightarrow> False) then (nil, w1)
            else
              (case Wait en (WithTimeout (waitTimeout en)) w1 of
                 (None, w2) \<Rightarrow> (None, w2)
               | (Some StatusOK, w2) \<Rightarrow> (nil, w2)
               | (Some (StatusErr e), w2) \<Rightarrow> Kill_direct en w2))"

section \<open>stop.go\<close>

record StopOptions =
  Signal :: string
  Timeout :: "int option"

text \<open>
  \<open>containerStop\<close>, lines 118 to 133: the fallback to \<open>Kill\<close>, with two more seconds for
  the transition when \<open>Kill\<close> fails. The deferred function of lines 81 to 85 logs the
  "stop" event on every return of \<open>nil\<close> after line 81.
\<close>

definition containerStop_kill :: "env \<Rightarrow> world \<Rightarrow> ret \<times> world" where
  "containerStop_kill en w =
     (case Kill en w of
        (None, w1) \<Rightarrow> (None, w1)
      | (Some (Inr u), w1) \<Rightarrow> (nil, emit (EvLogEvent ''stop'') w1)
      | (Some (Inl e), w1) \<Rightarrow>
          (case Wait en (WithTimeout (2 * Second)) w1 of
             (None, w2) \<Rightarrow> (None, w2)
           | (Some (StatusErr e2), w2) \<Rightarrow> (fail e, w2)
           | (Some StatusOK, w2) \<Rightarrow> (nil, emit (EvLogEvent ''stop'') w2)))"

text \<open>Lines 60 to 74: the signal and the timeout in effect.\<close>

definition stopSignal_of :: "env \<Rightarrow> StopOptions \<Rightarrow> world \<Rightarrow> error + int" where
  "stopSignal_of en options w =
     (if Signal options \<noteq> []
      then (case ParseSignal en (Signal options) of
              Inl e \<Rightarrow> Inl (InvalidParameter e)
            | Inr sig \<Rightarrow> Inr sig)
      else Inr (StopSignal en (ctr w)))"

definition stopTimeout_of :: "env \<Rightarrow> StopOptions \<Rightarrow> world \<Rightarrow> int" where
  "stopTimeout_of en options w =
     (case Timeout options of Some t \<Rightarrow> t | None \<Rightarrow> StopTimeout en (ctr w))"

text \<open>
  Lines 77 to 103: the wait is computed, the stop signal is sent, and the container is
  waited for; the result is the error of the send and the status of the wait.
\<close>

definition containerStop_send_wait ::
    "env \<Rightarrow> int \<Rightarrow> int \<Rightarrow> world \<Rightarrow> (error + unit) \<times> status option \<times> world" where
  "containerStop_send_wait en stopSignal stopTimeout w =
     (let wait0 = (if stopTimeout \<ge> 0 then int64 (stopTimeout * Second) else 0) in
      case killPossiblyDeadProcess en stopSignal w of
        (err, w1) \<Rightarrow>
          let wait = (case err of Inl e \<Rightarrow> 2 * Second | Inr u \<Rightarrow> wait0);
              subCtx = (if stopTimeout \<ge> 0 then WithTimeout wait else WithCancel)
          in (case Wait en subCtx w1 of (st, w2) \<Rightarrow> (err, st, w2)))"

text \<open>
  \<open>containerStop\<close>. The first parameter is the caller's context, which the code names
  \<open>_\<close> and never reads: the waits run on contexts made from \<open>context.Background()\<close>.
\<close>

definition containerStop :: "env \<Rightarrow> ctx \<Rightarrow> StopOptions \<Rightarrow> world \<Rightarrow> ret \<times> world" where
  "containerStop en caller options w =
     (if \<not> Running (ctr w) then (nil, w)
      else
        case stopSignal_of en options w of
          Inl e \<Rightarrow> (fail e, w)
        | Inr stopSignal \<Rightarrow>
            (case containerStop_send_wait en stopSignal (stopTimeout_of en options w) w of
               (err, None, w2) \<Rightarrow> (None, w2)
             | (err, Some StatusOK, w2) \<Rightarrow> (nil, emit (EvLogEvent ''stop'') w2)
             | (err, Some (StatusErr e2), w2) \<Rightarrow>
                 if stopTimeout_of en options w < 0
                 then (case err of
                         Inl e \<Rightarrow> (fail e, w2)
                       | Inr u \<Rightarrow> (nil, emit (EvLogEvent ''stop'') w2))
                 else containerStop_kill en w2))"

section \<open>Removal\<close>

record ContainerRmConfig =
  ForceRemove :: bool
  RemoveVolume :: bool
  RemoveLink :: bool

text \<open>
  Modelled from the spec: \<open>daemon.GetContainer\<close> is not among the source files. It
  resolves a name or identifier to the container, and fails with a "not found" error when
  the container is absent from the registry. (Resolution by identifier prefix is left out.)
\<close>

definition GetContainer :: "string \<Rightarrow> world \<Rightarrow> error + unit" where
  "GetContainer name w =
     (if registered w \<and> (name = ID (ctr w) \<or> name = Name (ctr w)) then Inr ()
      else Inl (ErrExt KNotFound (''No such container: '' @ name)))"

text \<open>
  Modelled from the spec: the methods of the container package that record a removal
  error, mark the container removed (clearing the removal error), and take or release the
  removal-in-progress guard are not among the source files.
\<close>

definition SetRemovalError :: "error option \<Rightarrow> world \<Rightarrow> world" where
  "SetRemovalError e w = emit EvSetRemovalError (w\<lparr>ctr := (ctr w)\<lparr>RemovalError := e\<rparr>\<rparr>)"

definition SetRemoved :: "world \<Rightarrow> world" where
  "SetRemoved w = emit EvSetRemoved (w\<lparr>ctr := (ctr w)\<lparr>Removed := True, RemovalError := None\<rparr>\<rparr>)"

definition ResetRemovalInProgress :: "world \<Rightarrow> world" where
  "ResetRemovalInProgress w =
     emit EvResetRemovalInProgress (w\<lparr>ctr := (ctr w)\<lparr>RemovalInProgress := False\<rparr>\<rparr>)"

definition releaseNames :: "string list \<Rightarrow> world \<Rightarrow> world" where
  "releaseNames names w = fold (\<lambda>n. emit (EvReleaseName n)) names w"

subsection \<open>\<open>rmLink\<close>\<close>

definition path_Split :: "string \<Rightarrow> string \<times> string" where
  "path_Split p =
     (rev (dropWhile (\<lambda>c. c \<noteq> CHR ''/'') (rev p)), rev (takeWhile (\<lambda>c. c \<noteq> CHR ''/'') (rev p)))"

definition TrimSuffix_slash :: "string \<Rightarrow> string" where
  "TrimSuffix_slash p = (if p \<noteq> [] \<and> last p = CHR ''/'' then butlast p else p)"

definition rmLink :: "env \<Rightarrow> string \<Rightarrow> world \<Rightarrow> ret \<times> world" where
  "rmLink en name0 w =
     (case name0 of
        [] \<Rightarrow> (fail (Panic ''index out of range''), w)
      | c # cs \<Rightarrow>
          let name = (if c \<noteq> CHR ''/'' then CHR ''/'' # name0 else name0) in
          (case path_Split name of
             (parent0, n) \<Rightarrow>
               if parent0 = ''/''
               then (fail (ErrNew ''Conflict, cannot remove the default link name of the container''), w)
               else
                 let parent = TrimSuffix_slash parent0 in
                 (case replica_GetID en w parent of
                    Inl e \<Rightarrow>
                      (fail (ErrNew (''Cannot get parent '' @ parent @ '' for link name '' @ name)), w)
                  | Inr pe \<Rightarrow>
                      let w1 = emit (EvReleaseName name) w in
                      if GetParent en w1 pe
                      then (nil, emit EvUpdateNetwork (emit (EvLinkIndexUnlink name) w1))
                      else (nil, w1))))"

subsection \<open>\<open>cleanupContainer\<close>\<close>

text \<open>Lines 150 to 170: the writable layer, or else the lease of the snapshotter.\<close>

definition cleanupContainer_release :: "env \<Rightarrow> world \<Rightarrow> (error + unit) \<times> world" where
  "cleanupContainer_release en w =
     (case RWLayer (ctr w) of
        Some l \<Rightarrow>
          let w1 = emit (EvReleaseLayer l) w in
          (case ReleaseLayer en w1 l of
             Some e \<Rightarrow>
               (Inl (Wrapf e (''container '' @ ID (ctr w1))),
                SetRemovalError (Some (Wrapf e (''container '' @ ID (ctr w1)))) w1)
           | None \<Rightarrow> (Inr (), w1\<lparr>ctr := (ctr w1)\<lparr>RWLayer := None\<rparr>\<rparr>))
      | None \<Rightarrow>
          if UsesSnapshotter en w then
            let w1 = emit (EvLeaseDelete (ID (ctr w))) w in
            (case leases_Delete en w1 (ID (ctr w1)) of
               Some e \<Rightarrow> (Inl e, SetRemovalError (Some e) w1)
             | None \<Rightarrow> (Inr (), w1))
          else (Inr (), w))"

text \<open>
  Lines 188 to 203. The error of \<open>removeMountPoints\<close> is only logged.
\<close>

definition cleanupContainer_finish :: "env \<Rightarrow> ContainerRmConfig \<Rightarrow> world \<Rightarrow> world" where
  "cleanupContainer_finish en config w =
     (let linkNames = linkIndex_delete en w;
          w1 = emit EvLinkIndexDelete w;
          w2 = emit (EvReleaseLabel (ProcessLabel (ctr w1))) w1;
          w3 = emit (EvContainersDelete (ID (ctr w2))) (w2\<lparr>registered := False\<rparr>);
          w4 = emit EvReplicaDelete (w3\<lparr>replicated := False\<rparr>);
          w5 = emit (EvRemoveMountPoints (RemoveVolume config)) w4;
          w6 = releaseNames linkNames w5;
          w7 = SetRemoved w6;
          w8 = emit (EvStateCtrDel (ID (ctr w7))) w7
      in emit (EvLogEvent ''destroy'') w8)"

text \<open>
  Lines 135 to 203: the container is marked dead and checkpointed under its lock (an
  error of the checkpoint is only logged), then the layer or lease is released, then the
  root directory is removed under the lock.
\<close>

definition cleanupContainer_markDead :: "world \<Rightarrow> world" where
  "cleanupContainer_markDead w =
     (let w1 = emit EvLock w;
          w2 = emit EvSetDead (w1\<lparr>ctr := (ctr w1)\<lparr>Dead := True\<rparr>\<rparr>);
          w3 = emit EvCheckpointTo w2
      in emit EvUnlock w3)"

definition cleanupContainer_teardown :: "env \<Rightarrow> ContainerRmConfig \<Rightarrow> world \<Rightarrow> ret \<times> world" where
  "cleanupContainer_teardown en config w =
     (let w4 = cleanupContainer_markDead w
      in (case cleanupContainer_release en w4 of
            (Inl e, w5) \<Rightarrow> (fail e, w5)
          | (Inr u, w5) \<Rightarrow>
              let w6 = emit EvLock w5;
                  w7 = emit (EvEnsureRemoveAll (Root (ctr w6))) w6;
                  w8 = emit EvUnlock w7
              in (case EnsureRemoveAll en w7 (Root (ctr w7)) of
                    Some e \<Rightarrow>
                      (fail (Wrapf e (''unable to remove filesystem for '' @ ID (ctr w8))),
                       SetRemovalError (Some (Wrapf e (''unable to remove filesystem for '' @ ID (ctr w8)))) w8)
                  | None \<Rightarrow> (nil, cleanupContainer_finish en config w8))))"

text \<open>Lines 113 to 133: statistics are stopped, then a stop with a timeout of 3 seconds.\<close>

definition cleanupContainer_stop :: "env \<Rightarrow> ContainerRmConfig \<Rightarrow> world \<Rightarrow> ret \<times> world" where
  "cleanupContainer_stop en config w =
     (let w1 = emit EvStopCollection w in
      case containerStop en TODO \<lparr>Signal = [], Timeout = Some 3\<rparr> w1 of
        (Some (Inr u), w2) \<Rightarrow> cleanupContainer_teardown en config w2
      | (r, w2) \<Rightarrow> (r, w2))"

definition procedure :: "string \<Rightarrow> string" where
  "procedure state =
     (if state = ''paused''
      then ''Unpause and then '' @ ''stop the container before attempting removal or force remove''
      else ''Stop the container before attempting removal or force remove'')"

definition cleanupContainer :: "env \<Rightarrow> ContainerRmConfig \<Rightarrow> world \<Rightarrow> ret \<times> world" where
  "cleanupContainer en config w =
     (if Running (ctr w) then
        if \<not> ForceRemove config then
          (fail (Conflict (ErrNew (''You cannot remove a '' @ StateString en (ctr w) @ '' container ''
                   @ ID (ctr w) @ ''. '' @ procedure (StateString en (ctr w))))), w)
        else
          (case Kill en w of
             (Some (Inl e), w1) \<Rightarrow>
               (fail (ErrorfV (''Could not kill running container '' @ ID (ctr w1) @ '', cannot remove - '') e), w1)
           | (None, w1) \<Rightarrow> (None, w1)
           | (Some (Inr u), w1) \<Rightarrow> cleanupContainer_stop en config w1)
      else cleanupContainer_stop en config w)"

subsection \<open>\<open>onlyCleanupContainer\<close>, in its two versions\<close>

text \<open>
  Modelled from the spec: \<open>OnlySetRemovalError\<close>, \<open>OnlyStopCollection\<close>, \<open>onlyDelete\<close>,
  \<open>OnlyDelete\<close> and \<open>OnlyDel\<close> are not among the source files; they are taken to do what
  \<open>SetRemovalError\<close>, \<open>StopCollection\<close>, \<open>delete\<close>, \<open>Delete\<close> and \<open>del\<close> do, and are
  recorded under their own names.
\<close>

definition OnlySetRemovalError :: "error option \<Rightarrow> world \<Rightarrow> world" where
  "OnlySetRemovalError e w = emit EvOnlySetRemovalError (w\<lparr>ctr := (ctr w)\<lparr>RemovalError := e\<rparr>\<rparr>)"

text \<open>
  First version, lines 216 to 240: the release, which runs when \<open>force\<close> is not set. The
  returns after a failed release are commented out in the code, so the function goes on,
  and the layer field is cleared whether the release failed or not.
\<close>

definition onlyCleanupContainer_release :: "env \<Rightarrow> world \<Rightarrow> world" where
  "onlyCleanupContainer_release en w =
     (case RWLayer (ctr w) of
        Some l \<Rightarrow>
          let w1 = emit (EvReleaseLayer l) w;
              w2 = (case ReleaseLayer en w1 l of
                      Some e \<Rightarrow> OnlySetRemovalError (Some (Wrapf e (''container '' @ ID (ctr w1)))) w1
                    | None \<Rightarrow> w1)
          in w2\<lparr>ctr := (ctr w2)\<lparr>RWLayer := None\<rparr>\<rparr>
      | None \<Rightarrow>
          if UsesSnapshotter en w then
            let w1 = emit (EvLeaseDelete (ID (ctr w))) w in
            (case leases_Delete en w1 (ID (ctr w1)) of
               Some e \<Rightarrow> OnlySetRemovalError (Some e) w1
             | None \<Rightarrow> w1)
          else w)"

text \<open>
  Lines 242 to 264 of the first version: the errors of \<open>EnsureRemoveAll\<close> and of
  \<open>removeMountPoints\<close> are only logged; the "destroy" event is logged from a goroutine.
\<close>

definition onlyCleanupContainer1 :: "env \<Rightarrow> ContainerRmConfig \<Rightarrow> bool \<Rightarrow> world \<Rightarrow> ret \<times> world" where
  "onlyCleanupContainer1 en config force w =
     (let w1 = emit EvOnlyStopCollection w;
          w2 = emit EvSetDead (w1\<lparr>ctr := (ctr w1)\<lparr>Dead := True\<rparr>\<rparr>);
          w3 = emit EvCheckpointTo w2;
          w4 = (if \<not> force then onlyCleanupContainer_release en w3 else w3);
          w5 = emit (EvEnsureRemoveAll (Root (ctr w4))) w4;
          linkNames = linkIndex_delete en w5;
          w6 = emit EvLinkIndexOnlyDelete w5;
          w7 = emit (EvReleaseLabel (ProcessLabel (ctr w6))) w6;
          w8 = emit (EvContainersDelete (ID (ctr w7))) (w7\<lparr>registered := False\<rparr>);
          w9 = emit EvReplicaDelete (w8\<lparr>replicated := False\<rparr>);
          w10 = emit (EvRemoveMountPoints (RemoveVolume config)) w9;
          w11 = releaseNames linkNames w10;
          w12 = OnlySetRemovalError None w11;
          w13 = emit (EvStateCtrOnlyDel (ID (ctr w12))) w12
      in (nil, emit (EvGoLogEvent ''destroy'') w13))"

text \<open>Second version, lines 587 to 617: no release of the layer or lease at all.\<close>

definition onlyCleanupContainer2 :: "env \<Rightarrow> ContainerRmConfig \<Rightarrow> world \<Rightarrow> ret \<times> world" where
  "onlyCleanupContainer2 en config w =
     (let w2 = emit EvSetDead (w\<lparr>ctr := (ctr w)\<lparr>Dead := True\<rparr>\<rparr>);
          w3 = emit EvCheckpointTo w2;
          w5 = emit (EvEnsureRemoveAll (Root (ctr w3))) w3;
          linkNames = linkIndex_delete en w5;
          w6 = emit EvLinkIndexOnlyDelete w5;
          w7 = emit (EvReleaseLabel (ProcessLabel (ctr w6))) w6;
          w8 = emit (EvContainersOnlyDelete (ID (ctr w7))) (w7\<lparr>registered := False\<rparr>);
          w9 = emit EvReplicaDelete (w8\<lparr>replicated := False\<rparr>);
          w10 = emit (EvRemoveMountPoints (RemoveVolume config)) w9;
          w11 = releaseNames linkNames w10;
          w12 = OnlySetRemovalError None w11;
          w13 = emit (EvStateCtrOnlyDel (ID (ctr w12))) w12
      in (nil, emit (EvLogEvent ''destroy'') w13))"

subsection \<open>The liveness probe \<open>pidExists\<close>, in its two versions\<close>

definition int32 :: "int \<Rightarrow> int" where
  "int32 x = (x + 2 ^ 31) mod 2 ^ 32 - 2 ^ 31"

definition uint32 :: "int \<Rightarrow> int" where
  "uint32 x = x mod 2 ^ 32"

definition WAIT_TIMEOUT :: nat where
  "WAIT_TIMEOUT = 258"

definition ERROR_ACCESS_DENIED :: error where
  "ERROR_ACCESS_DENIED = ErrExt KOther ''Access is denied.''"

definition ERROR_INVALID_PARAMETER :: error where
  "ERROR_INVALID_PARAMETER = ErrExt KOther ''The parameter is incorrect.''"

text \<open>
  The operating system's \<open>EnumProcesses\<close> on a buffer of \<open>n\<close> entries: the buffer holds the
  first \<open>n\<close> identifiers of the process table (zero beyond them), and the number of bytes
  written is reported. Sizes are natural numbers here: a process table of fewer than
  \<open>2 ^ 30\<close> entries keeps them below \<open>2 ^ 32\<close>.
\<close>

definition EnumProcesses :: "world \<Rightarrow> nat \<Rightarrow> nat list \<times> nat" where
  "EnumProcesses w n =
     (take n (procs w) @ replicate (n - length (procs w)) 0, 4 * min n (length (procs w)))"

text \<open>
  First version, the loop of lines 275 to 289: it is left with an empty list when the
  enumeration fails, goes round again with a bigger buffer when the number of bytes
  written equals the number of entries of the buffer, and ends otherwise.
\<close>

function EnumProcesses_loop :: "env \<Rightarrow> world \<Rightarrow> nat \<Rightarrow> int list" where
  "EnumProcesses_loop en w psSize =
     (case EnumProcesses_err en w of
        Some e \<Rightarrow> []
      | None \<Rightarrow>
          if length (fst (EnumProcesses w psSize)) = snd (EnumProcesses w psSize)
          then EnumProcesses_loop en w (psSize + 1024)
          else map (\<lambda>p. int32 (int p))
                 (take (snd (EnumProcesses w psSize) div 4) (fst (EnumProcesses w psSize))))"
  by pat_completeness auto
termination
  by (relation "measure (\<lambda>(en, w, psSize). 4 * length (procs w) + 1 - psSize)")
     (auto simp: EnumProcesses_def min_def split: if_splits)

declare EnumProcesses_loop.simps [simp del]

definition pidExists1 :: "env \<Rightarrow> int \<Rightarrow> world \<Rightarrow> bool" where
  "pidExists1 en pid w =
     (let ret = (if pid mod 4 \<noteq> 0 then EnumProcesses_loop en w 1024 else []) in
      if pid mod 4 \<noteq> 0 \<and> length ret > 0 then int32 pid \<in> set ret
      else
        case OpenProcess en w (uint32 pid) of
          Inl err \<Rightarrow> (if err = ERROR_ACCESS_DENIED then True else False)
        | Inr h \<Rightarrow> WaitForSingleObject en w = WAIT_TIMEOUT)"

text \<open>
  The operating system's delivery of a signal to a process (\<open>process.Signal\<close>): it fails
  when no such process exists, and the kill signal ends the process it is delivered to.
  Process groups (negative identifiers) are outside the model.
\<close>

definition process_Signal :: "int \<Rightarrow> int \<Rightarrow> world \<Rightarrow> error option \<times> world" where
  "process_Signal pid sig w0 =
     (let w = emit (EvSignal pid sig) w0 in
      if 0 < pid \<and> nat pid \<in> set (procs w)
      then (None, if sig = SIGKILL then w\<lparr>procs := removeAll (nat pid) (procs w)\<rparr> else w)
      else (Some (ErrExt KOther ''os: process already finished''), w))"

text \<open>Second version, lines 619 to 632: \<open>process.Signal(os.Kill)\<close>.\<close>

definition pidExists2 :: "env \<Rightarrow> int \<Rightarrow> world \<Rightarrow> bool \<times> world" where
  "pidExists2 en pid w =
     (case FindProcess en pid of
        Some err \<Rightarrow> (False, w)
      | None \<Rightarrow>
          (case process_Signal pid SIGKILL w of
             (Some err, w1) \<Rightarrow> (False, w1)
           | (None, w1) \<Rightarrow> (True, w1)))"

subsection \<open>\<open>ContainerRm\<close>, in its two versions, and \<open>OnlyContainerRm\<close>\<close>

text \<open>
  Lines 43 to 65 of the first version and 424 to 446 of the second, which are the same:
  the removal-in-progress guard, released by the deferred \<open>ResetRemovalInProgress\<close> on
  every return after it was taken; the check that the container is still registered; the
  removal of a link, or the full cleanup.
\<close>

definition ContainerRm_guarded :: "env \<Rightarrow> string \<Rightarrow> ContainerRmConfig \<Rightarrow> world \<Rightarrow> ret \<times> world" where
  "ContainerRm_guarded en name config w0 =
     (let w = emit EvSetRemovalInProgress w0 in
      if RemovalInProgress (ctr w)
      then (fail (Conflict (ErrNew (''removal of container '' @ name @ '' is already in progress''))), w)
      else
        let w1 = w\<lparr>ctr := (ctr w)\<lparr>RemovalInProgress := True\<rparr>\<rparr> in
        (case (if \<not> registered w1 then (nil, w1)
               else if RemoveLink config then rmLink en name w1
               else (case cleanupContainer en config w1 of
                       (r, w2) \<Rightarrow> (r, emit EvUpdateSince w2))) of
           (None, w3) \<Rightarrow> (None, w3)
         | (Some r, w3) \<Rightarrow> (Some r, ResetRemovalInProgress w3)))"

definition ContainerRm1 :: "env \<Rightarrow> string \<Rightarrow> ContainerRmConfig \<Rightarrow> world \<Rightarrow> ret \<times> world" where
  "ContainerRm1 en name config w =
     (case GetContainer name w of
        Inl err \<Rightarrow> (fail err, w)
      | Inr u \<Rightarrow>
          if Pid (ctr w) = 0 then
            (case onlyCleanupContainer1 en config True w of
               (r, w1) \<Rightarrow> (nil, emit EvUpdateSince w1))
          else ContainerRm_guarded en name config (emit (EvRecordsContainerId (ID (ctr w))) w))"

definition ContainerRm2 :: "env \<Rightarrow> string \<Rightarrow> ContainerRmConfig \<Rightarrow> world \<Rightarrow> ret \<times> world" where
  "ContainerRm2 en name config w =
     (case GetContainer name w of
        Inl err \<Rightarrow> (fail err, w)
      | Inr u \<Rightarrow>
          if Pid (ctr w) = 0 then onlyCleanupContainer2 en config w
          else if Pid (ctr w) > 0 then
            (case pidExists2 en (Pid (ctr w)) w of
               (alive, w1) \<Rightarrow>
                 if \<not> alive then onlyCleanupContainer2 en config w1
                 else ContainerRm_guarded en name config w1)
          else ContainerRm_guarded en name config w)"

text \<open>
  \<open>OnlyContainerRm\<close>, lines 354 to 381. The configuration is the value behind the
  pointer the callers pass.
\<close>

definition OnlyContainerRm :: "env \<Rightarrow> string \<Rightarrow> ContainerRmConfig \<Rightarrow> bool \<Rightarrow> world \<Rightarrow> ret \<times> world" where
  "OnlyContainerRm en name config force w =
     (case GetContainer name w of
        Inl err \<Rightarrow> (nil, w)
      | Inr u \<Rightarrow>
          if force then
            (case onlyCleanupContainer1 en config force w of
               (r, w1) \<Rightarrow> (nil, emit EvUpdateSince w1))
          else if Pid (ctr w) = 0 then
            (case onlyCleanupContainer1 en config True w of
               (r, w1) \<Rightarrow> (nil, emit EvUpdateSince w1))
          else (nil, w))"

section \<open>Reading the trace\<close>

text \<open>The events a call has added to the trace.\<close>

definition since :: "world \<Rightarrow> world \<Rightarrow> event list" where
  "since w w' = drop (length (trace w)) (trace w')"

text \<open>
  The irreversible releases of resources: the writable layer, the lease, the root
  directory.
\<close>

fun release_event :: "event \<Rightarrow> bool" where
  "release_event (EvReleaseLayer l) = True"
| "release_event (EvLeaseDelete i) = True"
| "release_event (EvEnsureRemoveAll r) = True"
| "release_event e = False"

text \<open>What sending a signal and waiting add to the trace.\<close>

fun signalling :: "event \<Rightarrow> bool" where
  "signalling EvLock = True"
| "signalling EvUnlock = True"
| "signalling EvCheckpointTo = True"
| "signalling EvExitOnNext = True"
| "signalling (EvTaskKill s) = True"
| "signalling EvGoWaitExit = True"
| "signalling EvTaskResume = True"
| "signalling (EvLogKill s) = True"
| "signalling EvKillProcessDirectly = True"
| "signalling (EvWait d) = True"
| "signalling e = False"

text \<open>The steps of the teardown, from the stop of the statistics on.\<close>

fun teardown_event :: "event \<Rightarrow> bool" where
  "teardown_event EvStopCollection = True"
| "teardown_event EvOnlyStopCollection = True"
| "teardown_event EvSetDead = True"
| "teardown_event (EvReleaseLayer l) = True"
| "teardown_event (EvLeaseDelete i) = True"
| "teardown_event (EvEnsureRemoveAll r) = True"
| "teardown_event EvLinkIndexDelete = True"
| "teardown_event EvLinkIndexOnlyDelete = True"
| "teardown_event (EvReleaseLabel l) = True"
| "teardown_event (EvContainersDelete i) = True"
| "teardown_event (EvContainersOnlyDelete i) = True"
| "teardown_event EvReplicaDelete = True"
| "teardown_event (EvRemoveMountPoints v) = True"
| "teardown_event (EvReleaseName n) = True"
| "teardown_event EvSetRemovalError = True"
| "teardown_event EvOnlySetRemovalError = True"
| "teardown_event EvSetRemoved = True"
| "teardown_event (EvStateCtrDel i) = True"
| "teardown_event (EvStateCtrOnlyDel i) = True"
| "teardown_event (EvLogEvent a) = (a = ''destroy'')"
| "teardown_event (EvGoLogEvent a) = (a = ''destroy'')"
| "teardown_event e = False"

text \<open>
  \<open>ext P w w'\<close>: the state \<open>w'\<close> comes after \<open>w\<close>, and every event added in between
  satisfies \<open>P\<close>.
\<close>

definition ext :: "(event \<Rightarrow> bool) \<Rightarrow> world \<Rightarrow> world \<Rightarrow> bool" where
  "ext P w w' = (take (length (trace w)) (trace w') = trace w \<and> list_all P (since w w'))"

text \<open>
  \<open>keeps w w'\<close>: between \<open>w\<close> and \<open>w'\<close> nothing has changed but the trace and the
  fields \<open>Running\<close>, \<open>Paused\<close> and \<open>HasBeenManuallyStopped\<close> of the container.
\<close>

definition keeps :: "world \<Rightarrow> world \<Rightarrow> bool" where
  "keeps w w' =
     (registered w' = registered w \<and> replicated w' = replicated w \<and> procs w' = procs w \<and>
      (ctr w')\<lparr>Running := False, Paused := False, HasBeenManuallyStopped := False\<rparr> =
      (ctr w)\<lparr>Running := False, Paused := False, HasBeenManuallyStopped := False\<rparr>)"

section \<open>Concrete inputs\<close>

definition env0 :: env where
  "env0 = \<lparr>
     GOOS = ''linux'',
     ParseSignal = (\<lambda>s. if s = ''SIGTERM'' then Inr 15 else if s = ''SIGKILL'' then Inr 9
                        else Inl (ErrExt KOther ''invalid signal'')),
     StopSignal = (\<lambda>c. 15),
     StopTimeout = (\<lambda>c. 10),
     StateString = (\<lambda>c. if Running c \<and> Paused c then ''paused''
                        else if Running c then ''running'' else ''exited''),
     IsShuttingDown = (\<lambda>w. False),
     GetRunningTask = (\<lambda>w. None),
     task_Kill = (\<lambda>w s. None),
     exit_after = (\<lambda>w. None),
     killProcessDirectly = (\<lambda>w. None),
     ReleaseLayer = (\<lambda>w l. None),
     UsesSnapshotter = (\<lambda>w. False),
     leases_Delete = (\<lambda>w i. None),
     EnsureRemoveAll = (\<lambda>w r. None),
     linkIndex_delete = (\<lambda>w. [''/web/db'']),
     replica_GetID = (\<lambda>w p. Inl (ErrExt KNotFound ''no such name'')),
     GetParent = (\<lambda>w p. False),
     EnumProcesses_err = (\<lambda>w. None),
     OpenProcess = (\<lambda>w p. Inl ERROR_INVALID_PARAMETER),
     WaitForSingleObject = (\<lambda>w. 0),
     FindProcess = (\<lambda>p. None) \<rparr>"

text \<open>An environment in which the exit event is processed at once.\<close>

definition env_exits :: env where
  "env_exits = env0\<lparr>exit_after := (\<lambda>w. Some 0)\<rparr>"



definition c_exited :: container where
  "c_exited = \<lparr>
     ID = ''c1'', Name = ''/web'', Pid = 0, Running = False, Paused = False,
     Restarting = False, Dead = False, RemovalInProgress = False, Removed = False,
     HasBeenManuallyStopped = False, RWLayer = Some 7, Root = ''/var/lib/docker/containers/c1'',
     ProcessLabel = ''label'', ConfigStopSignal = [], RemovalError = None \<rparr>"

definition c_running :: container where
  "c_running = c_exited\<lparr>Pid := 1234, Running := True\<rparr>"

definition w_exited :: world where
  "w_exited = \<lparr>ctr = c_exited, registered = True, replicated = True, procs = [1, 4, 1234],
               trace = []\<rparr>"

definition w_running :: world where
  "w_running = w_exited\<lparr>ctr := c_running\<rparr>"

text \<open>
  A container whose process, number 7, is no longer in the process table, and whose
  removal is already in progress.
\<close>

definition w_dead_pid :: world where
  "w_dead_pid = w_exited\<lparr>ctr := c_exited\<lparr>Pid := 7, RemovalInProgress := True\<rparr>\<rparr>"

text \<open>A running container, its process alive, whose removal is already in progress.\<close>

definition w_busy :: world where
  "w_busy = w_exited\<lparr>ctr := c_running\<lparr>RemovalInProgress := True\<rparr>\<rparr>"

definition cfg0 :: ContainerRmConfig where
  "cfg0 = \<lparr>ForceRemove = False, RemoveVolume = False, RemoveLink = False\<rparr>"

definition cfg_force :: ContainerRmConfig where
  "cfg_force = \<lparr>ForceRemove = True, RemoveVolume = False, RemoveLink = False\<rparr>"



section \<open>Properties\<close>


subsection \<open>Extensions of the trace\<close>

lemma ext_iff: "ext P w w' \<longleftrightarrow> (\<exists>es. trace w' = trace w @ es \<and> list_all P es)"
  unfolding ext_def since_def
  by (metis append_eq_conv_conj append_take_drop_id)

lemma ext_refl: "ext P w w"
  by (simp add: ext_iff)

lemma ext_emit: "ext P w w1 \<Longrightarrow> P e \<Longrightarrow> ext P w (emit e w1)"
  by (auto simp: ext_iff emit_def)

lemma ext_trace_eq: "ext P w w1 \<Longrightarrow> trace w2 = trace w1 \<Longrightarrow> ext P w w2"
  by (simp add: ext_iff)

lemma ext_trans: "ext P w w1 \<Longrightarrow> ext P w1 w2 \<Longrightarrow> ext P w w2"
  by (auto simp: ext_iff)

lemma ext_mono: "ext P w w' \<Longrightarrow> (\<And>e. P e \<Longrightarrow> Q e) \<Longrightarrow> ext Q w w'"
  by (auto simp: ext_iff list_all_iff)

lemma since_ext: "ext P w w' \<Longrightarrow> trace w' = trace w @ since w w'"
  by (auto simp: ext_iff since_def)

lemma ext_since: "ext P w w' \<Longrightarrow> list_all P (since w w')"
  by (simp add: ext_def)

lemma trace_emit [simp]: "trace (emit e w) = trace w @ [e]"
  by (simp add: emit_def)

lemma emit_fields [simp]:
  "ctr (emit e w) = ctr w" "registered (emit e w) = registered w"
  "replicated (emit e w) = replicated w" "procs (emit e w) = procs w"
  by (simp_all add: emit_def)

lemma ext_upd [simp]:
  "ext P w (w1\<lparr>ctr := c\<rparr>) = ext P w w1"
  "ext P w (w1\<lparr>registered := b\<rparr>) = ext P w w1"
  "ext P w (w1\<lparr>replicated := b\<rparr>) = ext P w w1"
  "ext P w (w1\<lparr>procs := ps\<rparr>) = ext P w w1"
  "ext P (w\<lparr>ctr := c\<rparr>) w1 = ext P w w1"
  "ext P (w\<lparr>registered := b\<rparr>) w1 = ext P w w1"
  "ext P (w\<lparr>replicated := b\<rparr>) w1 = ext P w w1"
  "ext P (w\<lparr>procs := ps\<rparr>) w1 = ext P w w1"
  by (simp_all add: ext_def since_def)

lemma Wait_ext: "ext signalling w (snd (Wait en c w))"
  by (auto simp: Wait_def Let_def SetStopped_def split: option.splits prod.splits
      intro!: ext_emit ext_refl)

lemma killWithSignal_deliver_ext: "ext signalling w (snd (killWithSignal_deliver en s u w))"
  by (auto simp: killWithSignal_deliver_def Let_def split: option.splits prod.splits
      intro!: ext_emit ext_refl)

lemma killWithSignal_ext: "ext signalling w (snd (killWithSignal en s w))"
  unfolding killWithSignal_def Let_def
  by (auto split: option.splits sum.splits
      intro!: ext_emit ext_refl ext_trans[OF _ killWithSignal_deliver_ext])

lemma killPossiblyDeadProcess_ext: "ext signalling w (snd (killPossiblyDeadProcess en s w))"
  using killWithSignal_ext[of w en s]
  by (auto simp: killPossiblyDeadProcess_def split: prod.splits sum.splits)



lemma since_emit: "ext P w w1 \<Longrightarrow> since w (emit e w1) = since w w1 @ [e]"
  by (auto simp: ext_iff since_def)

lemma since_self [simp]: "since w w = []"
  by (simp add: since_def)

lemma ext_emit_left: "ext P (emit e w) w' \<Longrightarrow> P e \<Longrightarrow> ext P w w'"
  by (rule ext_trans[of P w "emit e w"]) (auto intro: ext_emit ext_refl)

lemma Kill_direct_ext: "ext signalling w (snd (Kill_direct en w))"
  using Wait_ext[of "emit EvKillProcessDirectly w" en "WithTimeout (2 * Second)"]
  by (auto simp: Kill_direct_def Let_def split: option.splits prod.splits status.splits
      intro!: ext_emit ext_refl intro: ext_emit_left)

lemma Kill_ext: "ext signalling (emit EvKill w) (snd (Kill en w))"
proof -
  let ?w0 = "emit EvKill w"
  let ?w1 = "snd (killPossiblyDeadProcess en SIGKILL ?w0)"
  let ?w2 = "snd (Wait en (WithTimeout (waitTimeout en)) ?w1)"
  have 1: "ext signalling ?w0 ?w1" by (rule killPossiblyDeadProcess_ext)
  have 2: "ext signalling ?w0 ?w2" using 1 Wait_ext by (rule ext_trans)
  have 3: "ext signalling ?w0 (snd (Kill_direct en ?w2))" using 2 Kill_direct_ext by (rule ext_trans)
  show ?thesis
    using 1 2 3
    by (auto simp: Kill_def Let_def ext_refl split: option.splits prod.splits status.splits sum.splits)
qed

lemma Kill_since:
  "\<exists>es. since w (snd (Kill en w)) = EvKill # es \<and> list_all signalling es"
proof -
  from Kill_ext[of w en] obtain es where
    "trace (snd (Kill en w)) = trace (emit EvKill w) @ es" "list_all signalling es"
    by (auto simp: ext_iff)
  then show ?thesis by (auto simp: since_def)
qed

lemma Kill_ext': "ext (\<lambda>e. signalling e \<or> e = EvKill) w (snd (Kill en w))"
proof -
  have "ext (\<lambda>e. signalling e \<or> e = EvKill) w (emit EvKill w)"
    by (intro ext_emit ext_refl) simp
  moreover have "ext (\<lambda>e. signalling e \<or> e = EvKill) (emit EvKill w) (snd (Kill en w))"
    by (rule ext_mono[OF Kill_ext]) simp
  ultimately show ?thesis by (rule ext_trans)
qed


subsection \<open>\<open>OnlyContainerRm\<close>\<close>

lemma onlyCleanupContainer1_nil: "fst (onlyCleanupContainer1 en config force w) = nil"
  by (simp add: onlyCleanupContainer1_def Let_def)

text \<open>
  Claim C10. \<open>OnlyContainerRm\<close> returns \<open>nil\<close> on every path: whether or not the name
  resolves, with or without \<open>force\<close>, whatever the process identifier, and whatever the
  cleanup does. For a container with a process identifier other than 0 and without
  \<open>force\<close>, it returns \<open>nil\<close> and leaves the state as it was: no cleanup at all.
\<close>

theorem OnlyContainerRm_returns_nil:
  "fst (OnlyContainerRm en name config force w) = nil \<and>
   (Pid (ctr w) \<noteq> 0 \<and> \<not> force \<longrightarrow> OnlyContainerRm en name config force w = (nil, w))"
  by (auto simp: OnlyContainerRm_def split: sum.splits prod.splits)

theorem OnlyContainerRm_returns_nil_witness:
  "Pid (ctr w_running) \<noteq> 0 \<and> \<not> False \<and>
   fst (OnlyContainerRm env0 ''c1'' cfg0 False w_running) = nil \<and>
   OnlyContainerRm env0 ''c1'' cfg0 False w_running = (nil, w_running)"
  using OnlyContainerRm_returns_nil [of env0 "''c1''" cfg0 False w_running]
  by (simp add: w_running_def c_running_def)

subsection \<open>\<open>Kill\<close>\<close>


lemma Wait_bounded_returns: "fst (Wait en (WithTimeout d) w) \<noteq> None"
  by (auto simp: Wait_def Let_def split: option.splits)

lemma Wait_bounded_not_None: "Wait en (WithTimeout d) w \<noteq> (None, w')"
  using Wait_bounded_returns[of en d w] by auto

lemma Kill_direct_returns: "fst (Kill_direct en w) \<noteq> None"
  by (auto simp: Kill_direct_def Let_def Wait_bounded_not_None
      split: option.splits prod.splits status.splits)

lemma Kill_direct_not_None: "Kill_direct en w \<noteq> (None, w')"
  using Kill_direct_returns[of en w] by auto

lemma Kill_returns: "fst (Kill en w) \<noteq> None"
  using Kill_direct_returns[of en]
  by (auto simp: Kill_def Let_def Wait_bounded_not_None
      split: option.splits prod.splits status.splits sum.splits)

lemma Kill_not_None: "Kill en w \<noteq> (None, w')"
  using Kill_returns[of en w] by auto









lemmas kill_defs = Kill_def killPossiblyDeadProcess_def killWithSignal_def
  killWithSignal_deliver_def Wait_def Kill_direct_def emit_def SIGKILL_def Second_def
  waitTimeout_def SetStopped_def Let_def

lemmas input_defs = env0_def env_exits_def c_exited_def c_running_def w_exited_def
  w_running_def cfg0_def cfg_force_def



subsection \<open>\<open>containerStop\<close>\<close>

lemma containerStop_send_wait_ext:
  "ext signalling w (snd (snd (containerStop_send_wait en sig T w)))"
proof -
  obtain err w1 where k: "killPossiblyDeadProcess en sig w = (err, w1)" by force
  then have "ext signalling w w1" using killPossiblyDeadProcess_ext[of w en sig] by simp
  then show ?thesis using k
    by (auto simp: containerStop_send_wait_def Let_def split: prod.splits
        intro: ext_trans[OF _ Wait_ext])
qed


lemma containerStop_kill_ext:
  "ext (\<lambda>e. signalling e \<or> e = EvLogEvent ''stop'') (emit EvKill w) (snd (containerStop_kill en w))"
proof -
  obtain r w1 where k: "Kill en w = (r, w1)" by force
  from Kill_ext[of w en] k have e1: "ext signalling (emit EvKill w) w1" by simp
  let ?P = "\<lambda>e. signalling e \<or> e = EvLogEvent ''stop''"
  have e1': "ext ?P (emit EvKill w) w1" by (rule ext_mono[OF e1]) simp
  show ?thesis
    using k e1' ext_trans[OF e1' ext_mono[OF Wait_ext[of w1 en "WithTimeout (2 * Second)"], of ?P]]
    by (auto simp: containerStop_kill_def split: option.splits sum.splits prod.splits status.splits
        intro!: ext_emit)
qed


lemma containerStop_kill_ext':
  "ext (\<lambda>e. signalling e \<or> e = EvKill \<or> e = EvLogEvent ''stop'') w (snd (containerStop_kill en w))"
  by (rule ext_emit_left[OF ext_mono[OF containerStop_kill_ext]]) auto

lemma containerStop_send_wait_ext':
  "containerStop_send_wait en sig T w = (err, st, w2) \<Longrightarrow> ext signalling w w2"
  using containerStop_send_wait_ext[of w en sig T] by simp


lemma containerStop_kill_ext'':
  "containerStop_kill en w = (r, w') \<Longrightarrow>
   ext (\<lambda>e. signalling e \<or> e = EvKill \<or> e = EvLogEvent ''stop'') w w'"
  using containerStop_kill_ext'[of w en] by simp

lemma containerStop_ext:
  "ext (\<lambda>e. signalling e \<or> e = EvKill \<or> e = EvLogEvent ''stop'') w
     (snd (containerStop en caller options w))"
proof -
  let ?P = "\<lambda>e. signalling e \<or> e = EvKill \<or> e = EvLogEvent ''stop''"
  have sw: "ext ?P w w2" if "containerStop_send_wait en sig T w = (err, st, w2)" for sig T err st w2
    by (rule ext_mono[OF containerStop_send_wait_ext'[OF that]]) simp
  have k: "ext ?P w (snd (containerStop_kill en w2))"
    if "containerStop_send_wait en sig T w = (err, st, w2)" for sig T err st w2
    by (rule ext_trans[OF sw[OF that] containerStop_kill_ext'])
  show ?thesis
    by (auto simp: containerStop_def ext_refl
        split: sum.splits prod.splits option.splits status.splits intro!: ext_emit
        intro: sw k)
qed



lemmas stop_defs = containerStop_def containerStop_send_wait_def containerStop_kill_def
  stopSignal_of_def stopTimeout_of_def int64_def since_def









subsection \<open>\<open>cleanupContainer\<close>\<close>

lemma signalling_not_release: "signalling e \<Longrightarrow> \<not> release_event e \<and> e \<noteq> EvSetDead"
  by (cases e) auto

lemma signalling_not_teardown: "signalling e \<Longrightarrow> \<not> teardown_event e"
  by (cases e) auto

lemma releaseNames_trace [simp]:
  "trace (releaseNames ns w) = trace w @ map EvReleaseName ns"
  unfolding releaseNames_def by (induction ns arbitrary: w) auto

lemma releaseNames_fields [simp]:
  "ctr (releaseNames ns w) = ctr w" "registered (releaseNames ns w) = registered w"
  "replicated (releaseNames ns w) = replicated w" "procs (releaseNames ns w) = procs w"
  unfolding releaseNames_def by (induction ns arbitrary: w; simp)+

lemma ext_releaseNames:
  "ext P w w1 \<Longrightarrow> (\<And>n. P (EvReleaseName n)) \<Longrightarrow> ext P w (releaseNames ns w1)"
  by (auto simp: ext_iff list_all_iff)

lemma cleanupContainer_release_ext:
  "ext (\<lambda>e. e \<noteq> EvKill) w (snd (cleanupContainer_release en w))"
  by (auto simp: cleanupContainer_release_def SetRemovalError_def Let_def ext_refl
      split: option.splits intro!: ext_emit)

lemma cleanupContainer_release_Dead:
  "Dead (ctr (snd (cleanupContainer_release en w))) = Dead (ctr w)"
  by (auto simp: cleanupContainer_release_def SetRemovalError_def Let_def split: option.splits)

lemma cleanupContainer_release_Root:
  "Root (ctr (snd (cleanupContainer_release en w))) = Root (ctr w)"
  by (auto simp: cleanupContainer_release_def SetRemovalError_def Let_def split: option.splits)

lemma cleanupContainer_finish_trace:
  "\<exists>es. trace (cleanupContainer_finish en config w) = trace w @ es"
  by (simp add: cleanupContainer_finish_def Let_def SetRemoved_def)

lemma cleanupContainer_finish_fields:
  "\<not> registered (cleanupContainer_finish en config w)"
  "Removed (ctr (cleanupContainer_finish en config w))"
  "RemovalError (ctr (cleanupContainer_finish en config w)) = None"
  "Dead (ctr (cleanupContainer_finish en config w)) = Dead (ctr w)"
  by (simp_all add: cleanupContainer_finish_def Let_def SetRemoved_def)

lemma cleanupContainer_markDead_trace [simp]:
  "trace (cleanupContainer_markDead w) = trace w @ [EvLock, EvSetDead, EvCheckpointTo, EvUnlock]"
  by (simp add: cleanupContainer_markDead_def Let_def)

lemma cleanupContainer_markDead_fields [simp]:
  "Dead (ctr (cleanupContainer_markDead w))"
  "Root (ctr (cleanupContainer_markDead w)) = Root (ctr w)"
  "registered (cleanupContainer_markDead w) = registered w"
  by (simp_all add: cleanupContainer_markDead_def Let_def)

lemma cleanupContainer_teardown_trace:
  assumes "cleanupContainer_teardown en config w = (r, w')"
  shows "\<exists>post. trace w' = trace w @ [EvLock, EvSetDead, EvCheckpointTo, EvUnlock] @ post \<and>
           Dead (ctr w') \<and> (r = nil \<longrightarrow> EvEnsureRemoveAll (Root (ctr w)) \<in> set post)"
proof -
  let ?w4 = "cleanupContainer_markDead w"
  obtain rr w5 where rel: "cleanupContainer_release en ?w4 = (rr, w5)" by force
  from cleanupContainer_release_ext[of ?w4 en] rel
  obtain es where es: "trace w5 = trace ?w4 @ es" by (auto simp: ext_iff)
  have d5: "Dead (ctr w5)" using cleanupContainer_release_Dead[of en ?w4] rel by simp
  have r5: "Root (ctr w5) = Root (ctr w)" using cleanupContainer_release_Root[of en ?w4] rel by simp
  show ?thesis
  proof (cases rr)
    case (Inl e)
    then show ?thesis using assms rel es d5
      by (auto simp: cleanupContainer_teardown_def Let_def)
  next
    case (Inr u)
    let ?w8 = "emit EvUnlock (emit (EvEnsureRemoveAll (Root (ctr w5))) (emit EvLock w5))"
    obtain fs where fs: "trace (cleanupContainer_finish en config ?w8) = trace ?w8 @ fs"
      using cleanupContainer_finish_trace by blast
    show ?thesis using assms rel es d5 r5 Inr fs
      by (auto simp: cleanupContainer_teardown_def Let_def SetRemovalError_def
          cleanupContainer_finish_fields split: option.splits)
  qed
qed

lemma cleanupContainer_stop_pre:
  assumes "cleanupContainer_stop en config w = (nil, w')"
  shows "\<exists>w2. ext (\<lambda>e. \<not> release_event e \<and> e \<noteq> EvSetDead) w w2 \<and>
              cleanupContainer_teardown en config w2 = (nil, w')"
proof -
  let ?w1 = "emit EvStopCollection w"
  let ?P = "\<lambda>e. \<not> release_event e \<and> e \<noteq> EvSetDead"
  obtain r w2 where cs: "containerStop en TODO \<lparr>Signal = [], Timeout = Some 3\<rparr> ?w1 = (r, w2)"
    by force
  have "ext ?P ?w1 (snd (containerStop en TODO \<lparr>Signal = [], Timeout = Some 3\<rparr> ?w1))"
    by (rule ext_mono[OF containerStop_ext]) (auto dest: signalling_not_release)
  then have "ext ?P ?w1 w2" using cs by simp
  then have "ext ?P w w2" by (rule ext_emit_left) simp
  moreover have "cleanupContainer_teardown en config w2 = (nil, w')"
    using assms cs
    by (auto simp: cleanupContainer_stop_def Let_def split: option.splits sum.splits)
  ultimately show ?thesis by blast
qed

lemma cleanupContainer_pre:
  assumes "cleanupContainer en config w = (nil, w')"
  shows "\<exists>w2. ext (\<lambda>e. \<not> release_event e \<and> e \<noteq> EvSetDead) w w2 \<and>
              cleanupContainer_teardown en config w2 = (nil, w')"
proof (cases "Running (ctr w)")
  case False
  then show ?thesis using assms cleanupContainer_stop_pre by (simp add: cleanupContainer_def)
next
  case True
  let ?P = "\<lambda>e. \<not> release_event e \<and> e \<noteq> EvSetDead"
  obtain r w1 where k: "Kill en w = (r, w1)" by force
  have "ext ?P w (snd (Kill en w))"
    by (rule ext_mono[OF Kill_ext']) (auto dest: signalling_not_release)
  then have e1: "ext ?P w w1" using k by simp
  have "cleanupContainer_stop en config w1 = (nil, w')"
    using assms True k
    by (auto simp: cleanupContainer_def split: if_splits option.splits sum.splits)
  from cleanupContainer_stop_pre[OF this] obtain w2 where
    "ext ?P w1 w2" "cleanupContainer_teardown en config w2 = (nil, w')" by blast
  with e1 show ?thesis by (blast intro: ext_trans)
qed

text \<open>
  Claim C1. When \<open>cleanupContainer\<close> returns \<open>nil\<close>, its trace holds the marking of the
  container as dead between the taking and the release of the container lock, followed
  there by the checkpoint; no release of a layer, of a lease or of a root directory comes
  before it, the removal of the root directory comes after it, and the container is dead
  at the end.
\<close>

theorem cleanupContainer_dead_before_release:
  assumes "fst (cleanupContainer en config w) = nil"
  shows "\<exists>pre post root.
           trace (snd (cleanupContainer en config w)) =
             trace w @ pre @ [EvLock, EvSetDead, EvCheckpointTo, EvUnlock] @ post \<and>
           list_all (\<lambda>e. \<not> release_event e \<and> e \<noteq> EvSetDead) pre \<and>
           EvEnsureRemoveAll root \<in> set post \<and>
           Dead (ctr (snd (cleanupContainer en config w)))"
proof -
  obtain w' where c: "cleanupContainer en config w = (nil, w')"
    using assms by (cases "cleanupContainer en config w") auto
  from cleanupContainer_pre[OF c] obtain w2 where
    e: "ext (\<lambda>e. \<not> release_event e \<and> e \<noteq> EvSetDead) w w2" and
    t: "cleanupContainer_teardown en config w2 = (nil, w')" by blast
  from e obtain pre where pre: "trace w2 = trace w @ pre"
    "list_all (\<lambda>e. \<not> release_event e \<and> e \<noteq> EvSetDead) pre" by (auto simp: ext_iff)
  from cleanupContainer_teardown_trace[OF t] obtain post where
    "trace w' = trace w2 @ [EvLock, EvSetDead, EvCheckpointTo, EvUnlock] @ post"
    "Dead (ctr w')" "EvEnsureRemoveAll (Root (ctr w2)) \<in> set post" by auto
  with pre c show ?thesis by auto
qed

lemmas cleanup_defs = cleanupContainer_def cleanupContainer_stop_def cleanupContainer_teardown_def
  cleanupContainer_markDead_def cleanupContainer_release_def cleanupContainer_finish_def
  SetRemovalError_def SetRemoved_def releaseNames_def procedure_def

theorem cleanupContainer_dead_before_release_witness:
  "fst (cleanupContainer env_exits cfg_force w_running) = nil \<and>
   trace (snd (cleanupContainer env_exits cfg_force w_running)) =
     trace w_running @
     [EvKill, EvLock, EvExitOnNext, EvCheckpointTo, EvTaskKill 9, EvLogKill 9, EvUnlock,
      EvWait (Some 10000000000), EvStopCollection] @
     [EvLock, EvSetDead, EvCheckpointTo, EvUnlock] @
     [EvReleaseLayer 7, EvLock, EvEnsureRemoveAll ''/var/lib/docker/containers/c1'', EvUnlock,
      EvLinkIndexDelete, EvReleaseLabel ''label'', EvContainersDelete ''c1'', EvReplicaDelete,
      EvRemoveMountPoints False, EvReleaseName ''/web/db'', EvSetRemoved, EvStateCtrDel ''c1'',
      EvLogEvent ''destroy''] \<and>
   Dead (ctr (snd (cleanupContainer env_exits cfg_force w_running)))"
  using cleanupContainer_dead_before_release [of env_exits cfg_force w_running]
  by (simp add: cleanup_defs stop_defs kill_defs input_defs)

lemma cleanupContainer_finish_ext:
  "ext (\<lambda>e. e \<noteq> EvKill) w (cleanupContainer_finish en config w)"
  by (auto simp: ext_iff cleanupContainer_finish_def Let_def SetRemoved_def list_all_iff)

lemma SetRemovalError_ext: "ext (\<lambda>e. e \<noteq> EvKill) w (SetRemovalError x w)"
  by (simp add: ext_iff SetRemovalError_def)

lemma cleanupContainer_teardown_ext:
  "ext (\<lambda>e. e \<noteq> EvKill) w (snd (cleanupContainer_teardown en config w))"
proof -
  let ?P = "\<lambda>e. e \<noteq> EvKill"
  let ?w4 = "cleanupContainer_markDead w"
  have m: "ext ?P w ?w4"
    by (simp add: ext_iff)
  obtain rr w5 where rel: "cleanupContainer_release en ?w4 = (rr, w5)" by force
  have r: "ext ?P w w5"
    using ext_trans[OF m cleanupContainer_release_ext[of ?w4 en]] rel by simp
  show ?thesis
  proof (cases rr)
    case (Inl e)
    then show ?thesis using rel r by (simp add: cleanupContainer_teardown_def Let_def)
  next
    case (Inr u)
    let ?w7 = "emit (EvEnsureRemoveAll (Root (ctr w5))) (emit EvLock w5)"
    let ?w8 = "emit EvUnlock ?w7"
    have 8: "ext ?P w ?w8" using r by (auto simp: ext_iff)
    show ?thesis
    proof (cases "EnsureRemoveAll en ?w7 (Root (ctr w5))")
      case None
      then show ?thesis using rel Inr ext_trans[OF 8 cleanupContainer_finish_ext]
        by (simp add: cleanupContainer_teardown_def Let_def)
    next
      case (Some e)
      then show ?thesis using rel Inr ext_trans[OF 8 SetRemovalError_ext]
        by (simp add: cleanupContainer_teardown_def Let_def)
    qed
  qed
qed

lemma cleanupContainer_stop_ext:
  "ext (\<lambda>e. True) w (snd (cleanupContainer_stop en config w))"
proof -
  let ?w1 = "emit EvStopCollection w"
  let ?o = "\<lparr>Signal = [], Timeout = Some 3\<rparr>"
  have 1: "ext (\<lambda>e. True) w (snd (containerStop en TODO ?o ?w1))"
    by (rule ext_emit_left[OF ext_mono[OF containerStop_ext]]) auto
  have 2: "ext (\<lambda>e. True) w (snd (cleanupContainer_teardown en config (snd (containerStop en TODO ?o ?w1))))"
    by (rule ext_trans[OF 1 ext_mono[OF cleanupContainer_teardown_ext]]) auto
  show ?thesis using 1 2
    by (auto simp: cleanupContainer_stop_def Let_def split: prod.splits option.splits sum.splits)
qed

text \<open>
  Claim C5. For a container that is running when \<open>cleanupContainer\<close> is entered: without
  the force flag the call returns a conflict error and leaves the state as it was; with
  the force flag the first thing it does is to enter \<open>Kill\<close>, and when \<open>Kill\<close> fails
  it returns an error, in the state \<open>Kill\<close> left, with no step of the teardown done.
\<close>

theorem cleanupContainer_running:
  assumes "Running (ctr w)"
  shows "(\<not> ForceRemove config \<longrightarrow>
            (\<exists>e. cleanupContainer en config w = (fail (Conflict e), w))) \<and>
         (ForceRemove config \<longrightarrow>
            (\<exists>es. since w (snd (cleanupContainer en config w)) = EvKill # es) \<and>
            (\<forall>e. fst (Kill en w) = fail e \<longrightarrow>
               (\<exists>e'. fst (cleanupContainer en config w) = fail e') \<and>
               snd (cleanupContainer en config w) = snd (Kill en w) \<and>
               list_all (\<lambda>ev. \<not> teardown_event ev) (since w (snd (cleanupContainer en config w)))))"
proof (intro conjI impI allI)
  assume "\<not> ForceRemove config"
  then show "\<exists>e. cleanupContainer en config w = (fail (Conflict e), w)"
    using assms by (simp add: cleanupContainer_def)
next
  assume f: "ForceRemove config"
  obtain r w1 where k: "Kill en w = (r, w1)" by force
  from Kill_ext[of w en] k have e1: "ext (\<lambda>e. True) (emit EvKill w) w1"
    by (auto intro: ext_mono)
  have "ext (\<lambda>e. True) (emit EvKill w) (snd (cleanupContainer en config w))"
    using assms f k e1 ext_trans[OF e1 cleanupContainer_stop_ext[of w1 en config]]
    by (auto simp: cleanupContainer_def split: option.splits sum.splits)
  then show "\<exists>es. since w (snd (cleanupContainer en config w)) = EvKill # es"
    by (auto simp: ext_iff since_def)
next
  fix e
  assume f: "ForceRemove config" and ke: "fst (Kill en w) = fail e"
  then show "\<exists>e'. fst (cleanupContainer en config w) = fail e'"
    using assms by (auto simp: cleanupContainer_def split: prod.splits)
next
  fix e
  assume f: "ForceRemove config" and ke: "fst (Kill en w) = fail e"
  then show "snd (cleanupContainer en config w) = snd (Kill en w)"
    using assms by (auto simp: cleanupContainer_def split: prod.splits)
next
  fix e
  assume f: "ForceRemove config" and ke: "fst (Kill en w) = fail e"
  then have eq: "snd (cleanupContainer en config w) = snd (Kill en w)"
    using assms by (auto simp: cleanupContainer_def split: prod.splits)
  have "ext (\<lambda>ev. \<not> teardown_event ev) w (snd (Kill en w))"
    by (rule ext_mono[OF Kill_ext']) (auto dest: signalling_not_teardown)
  then show "list_all (\<lambda>ev. \<not> teardown_event ev) (since w (snd (cleanupContainer en config w)))"
    unfolding eq by (rule ext_since)
qed

theorem cleanupContainer_running_witness:
  "Running (ctr w_running) \<and> \<not> ForceRemove cfg0 \<and>
   cleanupContainer env0 cfg0 w_running =
     (fail (Conflict (ErrNew (''You cannot remove a running container c1. '' @
        ''Stop the container before attempting removal or force remove''))), w_running) \<and>
   ForceRemove cfg_force \<and>
   fst (Kill env0 w_running) =
     fail (ErrNew ''tried to kill container, but did not receive an exit event'') \<and>
   fst (cleanupContainer env0 cfg_force w_running) =
     fail (ErrorfV ''Could not kill running container c1, cannot remove - ''
        (ErrNew ''tried to kill container, but did not receive an exit event'')) \<and>
   since w_running (snd (cleanupContainer env0 cfg_force w_running)) =
     [EvKill, EvLock, EvExitOnNext, EvCheckpointTo, EvTaskKill 9, EvLogKill 9, EvUnlock,
      EvWait (Some 10000000000), EvKillProcessDirectly, EvWait (Some 2000000000)]"
  using cleanupContainer_running [of w_running cfg0 env0]
        cleanupContainer_running [of w_running cfg_force env0]
  by (simp add: cleanup_defs stop_defs kill_defs input_defs)

subsection \<open>What sending signals and waiting leave untouched\<close>


lemma keeps_refl [simp]: "keeps w w"
  by (simp add: keeps_def)


lemma keeps_emit [simp]: "keeps w (emit e w1) = keeps w w1"
  by (simp add: keeps_def)

lemma keeps_emit_left [simp]: "keeps (emit e w) w1 = keeps w w1"
  by (simp add: keeps_def)











subsection \<open>The probe and the removals\<close>


lemmas probe_defs = pidExists2_def process_Signal_def pidExists1_def EnumProcesses_def
  int32_def uint32_def WAIT_TIMEOUT_def ERROR_ACCESS_DENIED_def ERROR_INVALID_PARAMETER_def
  EnumProcesses_loop.simps

lemmas rm_defs = ContainerRm1_def ContainerRm2_def ContainerRm_guarded_def OnlyContainerRm_def
  onlyCleanupContainer1_def onlyCleanupContainer2_def onlyCleanupContainer_release_def
  OnlySetRemovalError_def ResetRemovalInProgress_def GetContainer_def rmLink_def

text \<open>
  Claim C9 fails on the code of the second version of \<open>pidExists\<close>: the probe delivers
  the kill signal. Probing the live process 1234 answers that it exists and removes it
  from the process table.
\<close>

theorem pidExists2_kills_probed_process:
  "1234 \<in> set (procs w_running) \<and>
   fst (pidExists2 env0 1234 w_running) \<and>
   1234 \<notin> set (procs (snd (pidExists2 env0 1234 w_running))) \<and>
   since w_running (snd (pidExists2 env0 1234 w_running)) = [EvSignal 1234 9]"
  by (simp add: probe_defs since_def emit_def SIGKILL_def input_defs)

text \<open>What a cleanup that returned \<open>nil\<close> leaves.\<close>

lemma cleanupContainer_teardown_nil:
  assumes "cleanupContainer_teardown en config w = (nil, w')"
  shows "\<not> registered w' \<and> Removed (ctr w') \<and> RemovalError (ctr w') = None"
  using assms
  by (auto simp: cleanupContainer_teardown_def Let_def cleanupContainer_finish_fields
      split: prod.splits sum.splits option.splits)

lemma cleanupContainer_nil:
  assumes "fst (cleanupContainer en config w) = nil"
  shows "\<not> registered (snd (cleanupContainer en config w))"
proof -
  obtain w' where c: "cleanupContainer en config w = (nil, w')"
    using assms by (cases "cleanupContainer en config w") auto
  from cleanupContainer_pre[OF c] cleanupContainer_teardown_nil c show ?thesis by auto
qed

lemma onlyCleanupContainer1_result:
  "fst (onlyCleanupContainer1 en config force w) = nil"
  "\<not> registered (snd (onlyCleanupContainer1 en config force w))"
  "RemovalError (ctr (snd (onlyCleanupContainer1 en config force w))) = None"
  by (simp_all add: onlyCleanupContainer1_def Let_def OnlySetRemovalError_def)

lemma onlyCleanupContainer2_result:
  "fst (onlyCleanupContainer2 en config w) = nil"
  "\<not> registered (snd (onlyCleanupContainer2 en config w))"
  "RemovalError (ctr (snd (onlyCleanupContainer2 en config w))) = None"
  by (simp_all add: onlyCleanupContainer2_def Let_def OnlySetRemovalError_def)

lemma onlyCleanupContainer1_unregisters:
  "onlyCleanupContainer1 en config force w = (r, w') \<Longrightarrow> \<not> registered w'"
  using onlyCleanupContainer1_result(2)[of en config force w] by simp

lemma onlyCleanupContainer2_unregisters:
  "onlyCleanupContainer2 en config w = (r, w') \<Longrightarrow> \<not> registered w'"
  using onlyCleanupContainer2_result(2)[of en config w] by simp

lemma GetContainer_unregistered:
  "\<not> registered w \<Longrightarrow> GetContainer name w = Inl (ErrExt KNotFound (''No such container: '' @ name))"
  by (simp add: GetContainer_def)

lemma GetContainer_registered: "GetContainer name w = Inr u \<Longrightarrow> registered w"
  by (auto simp: GetContainer_def split: if_splits)

lemma ContainerRm_guarded_nil:
  assumes "fst (ContainerRm_guarded en name config w) = nil" "\<not> RemoveLink config"
  shows "\<not> registered (snd (ContainerRm_guarded en name config w))"
proof -
  let ?w = "emit EvSetRemovalInProgress w"
  let ?w1 = "?w\<lparr>ctr := (ctr ?w)\<lparr>RemovalInProgress := True\<rparr>\<rparr>"
  show ?thesis
  proof (cases "registered w")
    case False
    then show ?thesis using assms
      by (auto simp: ContainerRm_guarded_def Let_def ResetRemovalInProgress_def
          split: if_splits prod.splits option.splits)
  next
    case True
    obtain r w2 where c: "cleanupContainer en config ?w1 = (r, w2)" by force
    have "r = nil" using assms True c
      by (auto simp: ContainerRm_guarded_def Let_def split: if_splits option.splits)
    with cleanupContainer_nil[of en config ?w1] c have "\<not> registered w2" by simp
    then show ?thesis using assms True c
      by (auto simp: ContainerRm_guarded_def Let_def ResetRemovalInProgress_def
          split: if_splits option.splits)
  qed
qed

lemma pidExists2_registered: "registered (snd (pidExists2 en pid w)) = registered w"
  by (auto simp: pidExists2_def process_Signal_def Let_def split: option.splits)

lemma ContainerRm1_nil:
  assumes "fst (ContainerRm1 en name config w) = nil" "\<not> RemoveLink config"
  shows "\<not> registered (snd (ContainerRm1 en name config w))"
  using assms ContainerRm_guarded_nil[of en name config "emit (EvRecordsContainerId (ID (ctr w))) w"]
  by (auto simp: ContainerRm1_def
      split: sum.splits prod.splits if_splits
      dest: GetContainer_registered onlyCleanupContainer1_unregisters)

lemma ContainerRm2_nil:
  assumes "fst (ContainerRm2 en name config w) = nil" "\<not> RemoveLink config"
  shows "\<not> registered (snd (ContainerRm2 en name config w))"
  using assms ContainerRm_guarded_nil[of en name config w]
    ContainerRm_guarded_nil[of en name config "snd (pidExists2 en (Pid (ctr w)) w)"]
  by (auto simp: ContainerRm2_def onlyCleanupContainer2_result
      split: sum.splits prod.splits if_splits
      dest: GetContainer_registered onlyCleanupContainer2_unregisters)


text \<open>
  Claim C8, as amended. A call of \<open>ContainerRm\<close>, in either version, for a container
  that is not registered fails with the not-found error of the name resolution and
  changes nothing. After a call that returned \<open>nil\<close>, for a request other than the
  removal of a link, the container is no longer registered, so that a second removal
  returns the not-found error, not \<open>nil\<close>. The silent \<open>nil\<close> of the re-check belongs to
  the guarded part only: entered for a container that is no longer registered, it takes
  and releases the guard and does nothing else.
\<close>

theorem ContainerRm_after_removal:
  "(\<not> registered w \<longrightarrow>
      ContainerRm1 en name config w = (fail (ErrExt KNotFound (''No such container: '' @ name)), w) \<and>
      ContainerRm2 en name config w = (fail (ErrExt KNotFound (''No such container: '' @ name)), w)) \<and>
   (\<not> RemoveLink config \<and> fst (ContainerRm1 en name config w) = nil \<longrightarrow>
      \<not> registered (snd (ContainerRm1 en name config w)) \<and>
      fst (ContainerRm1 en' name' config' (snd (ContainerRm1 en name config w))) =
        fail (ErrExt KNotFound (''No such container: '' @ name'))) \<and>
   (\<not> RemoveLink config \<and> fst (ContainerRm2 en name config w) = nil \<longrightarrow>
      \<not> registered (snd (ContainerRm2 en name config w)) \<and>
      fst (ContainerRm2 en' name' config' (snd (ContainerRm2 en name config w))) =
        fail (ErrExt KNotFound (''No such container: '' @ name'))) \<and>
   (\<not> registered w \<and> \<not> RemovalInProgress (ctr w) \<longrightarrow>
      fst (ContainerRm_guarded en name config w) = nil \<and>
      since w (snd (ContainerRm_guarded en name config w)) =
        [EvSetRemovalInProgress, EvResetRemovalInProgress])"
proof -
  have nf1: "ContainerRm1 e n c v = (fail (ErrExt KNotFound (''No such container: '' @ n)), v)"
    if "\<not> registered v" for e n c v
    using that by (simp add: ContainerRm1_def GetContainer_def)
  have nf2: "ContainerRm2 e n c v = (fail (ErrExt KNotFound (''No such container: '' @ n)), v)"
    if "\<not> registered v" for e n c v
    using that by (simp add: ContainerRm2_def GetContainer_def)
  have g: "\<not> registered w \<and> \<not> RemovalInProgress (ctr w) \<longrightarrow>
      fst (ContainerRm_guarded en name config w) = nil \<and>
      since w (snd (ContainerRm_guarded en name config w)) =
        [EvSetRemovalInProgress, EvResetRemovalInProgress]"
    by (simp add: ContainerRm_guarded_def Let_def ResetRemovalInProgress_def since_def)
  show ?thesis
    using nf1 nf2 g ContainerRm1_nil[of en name config w] ContainerRm2_nil[of en name config w]
    by auto
qed

theorem ContainerRm_after_removal_witness:
  "\<not> RemoveLink cfg_force \<and>
   fst (ContainerRm2 env_exits ''c1'' cfg_force w_running) = nil \<and>
   \<not> registered (snd (ContainerRm2 env_exits ''c1'' cfg_force w_running)) \<and>
   ContainerRm2 env_exits ''c1'' cfg_force (snd (ContainerRm2 env_exits ''c1'' cfg_force w_running)) =
     (fail (ErrExt KNotFound ''No such container: c1''),
      snd (ContainerRm2 env_exits ''c1'' cfg_force w_running)) \<and>
   fst (ContainerRm1 env0 ''c1'' cfg0 w_exited) = nil \<and>
   \<not> registered (snd (ContainerRm1 env0 ''c1'' cfg0 w_exited)) \<and>
   \<not> RemovalInProgress (ctr (w_running\<lparr>registered := False\<rparr>)) \<and>
   fst (ContainerRm_guarded env0 ''c1'' cfg0 (w_running\<lparr>registered := False\<rparr>)) = nil"
proof -
  have 1: "\<not> RemoveLink cfg_force" by (simp add: cfg_force_def)
  have 2: "fst (ContainerRm2 env_exits ''c1'' cfg_force w_running) = nil"
    by (simp add: rm_defs probe_defs cleanup_defs stop_defs kill_defs input_defs)
  have 3: "\<not> RemoveLink cfg0" by (simp add: cfg0_def)
  have 4: "fst (ContainerRm1 env0 ''c1'' cfg0 w_exited) = nil"
    by (simp add: rm_defs input_defs Let_def)
  from 1 2 ContainerRm_after_removal [where en = env_exits and name = "''c1''" and config = cfg_force and w = w_running]
  have 5: "\<not> registered (snd (ContainerRm2 env_exits ''c1'' cfg_force w_running))" by blast
  from 3 4 ContainerRm_after_removal [where en = env0 and name = "''c1''" and config = cfg0 and w = w_exited]
  have 6: "\<not> registered (snd (ContainerRm1 env0 ''c1'' cfg0 w_exited))" by blast
  from 5 ContainerRm_after_removal
         [where w = "snd (ContainerRm2 env_exits ''c1'' cfg_force w_running)" and en = env_exits
           and name = "''c1''" and config = cfg_force]
  have 7: "ContainerRm2 env_exits ''c1'' cfg_force (snd (ContainerRm2 env_exits ''c1'' cfg_force w_running)) =
     (fail (ErrExt KNotFound ''No such container: c1''),
      snd (ContainerRm2 env_exits ''c1'' cfg_force w_running))" by simp
  have 8: "\<not> registered (w_running\<lparr>registered := False\<rparr>)" by simp
  have 9: "\<not> RemovalInProgress (ctr (w_running\<lparr>registered := False\<rparr>))"
    by (simp add: input_defs)
  from 8 9 ContainerRm_after_removal
         [where w = "w_running\<lparr>registered := False\<rparr>" and en = env0
           and name = "''c1''" and config = cfg0]
  have 10: "fst (ContainerRm_guarded env0 ''c1'' cfg0 (w_running\<lparr>registered := False\<rparr>)) = nil"
    by blast
  from 1 2 4 5 6 7 9 10 show ?thesis by blast
qed

text \<open>
  The claim as it was stated fails: a forced removal of a running container completes,
  and a second removal under the same name returns the not-found error.
\<close>

theorem ContainerRm_twice_not_found:
  "fst (ContainerRm1 env_exits ''c1'' cfg_force w_running) = nil \<and>
   Removed (ctr (snd (ContainerRm1 env_exits ''c1'' cfg_force w_running))) \<and>
   fst (ContainerRm1 env_exits ''c1'' cfg_force
          (snd (ContainerRm1 env_exits ''c1'' cfg_force w_running))) =
     fail (ErrExt KNotFound ''No such container: c1'')"
  by (simp add: rm_defs cleanup_defs stop_defs kill_defs input_defs)


subsection \<open>The removal-in-progress guard\<close>

lemma onlyCleanupContainer_release_ext:
  "ext (\<lambda>e. e \<noteq> EvSetRemovalInProgress) w (onlyCleanupContainer_release en w)"
  by (auto simp: ext_iff onlyCleanupContainer_release_def OnlySetRemovalError_def Let_def
      split: option.splits)

lemma onlyCleanupContainer1_ext:
  "ext (\<lambda>e. e \<noteq> EvSetRemovalInProgress) w (snd (onlyCleanupContainer1 en config force w))"
proof -
  let ?P = "\<lambda>e. e \<noteq> EvSetRemovalInProgress"
  let ?w3 = "emit EvCheckpointTo (emit EvSetDead
               ((emit EvOnlyStopCollection w)\<lparr>ctr := (ctr (emit EvOnlyStopCollection w))\<lparr>Dead := True\<rparr>\<rparr>))"
  have 3: "ext ?P w ?w3" by (simp add: ext_iff)
  show ?thesis
  proof (cases force)
    case True
    then show ?thesis
      by (auto simp: ext_iff onlyCleanupContainer1_def Let_def OnlySetRemovalError_def list_all_iff)
  next
    case False
    from ext_trans[OF 3 onlyCleanupContainer_release_ext, of en]
    obtain es where es: "trace (onlyCleanupContainer_release en ?w3) = trace w @ es" "list_all ?P es"
      by (auto simp: ext_iff)
    show ?thesis using False es
      by (auto simp: ext_iff onlyCleanupContainer1_def Let_def OnlySetRemovalError_def list_all_iff)
  qed
qed

lemma onlyCleanupContainer2_ext:
  "ext (\<lambda>e. e \<noteq> EvSetRemovalInProgress) w (snd (onlyCleanupContainer2 en config w))"
  by (auto simp: ext_iff onlyCleanupContainer2_def Let_def OnlySetRemovalError_def list_all_iff)

lemma pidExists2_ext:
  "ext (\<lambda>e. e \<noteq> EvSetRemovalInProgress) w (snd (pidExists2 en pid w))"
  by (auto simp: ext_iff pidExists2_def process_Signal_def Let_def split: option.splits)

lemma pidExists2_ctr: "ctr (snd (pidExists2 en pid w)) = ctr w"
  by (auto simp: pidExists2_def process_Signal_def Let_def split: option.splits)

lemma rmLink_ext: "ext (\<lambda>e. True) w (snd (rmLink en name w))"
  by (auto simp: ext_iff rmLink_def Let_def split: list.splits prod.splits sum.splits)

lemma cleanupContainer_ext: "ext (\<lambda>e. True) w (snd (cleanupContainer en config w))"
proof -
  have 1: "ext (\<lambda>e. True) w (snd (Kill en w))"
    by (rule ext_mono[OF Kill_ext']) simp
  have 2: "ext (\<lambda>e. True) w (snd (cleanupContainer_stop en config (snd (Kill en w))))"
    by (rule ext_trans[OF 1 cleanupContainer_stop_ext])
  show ?thesis using 1 2 cleanupContainer_stop_ext[of w en config]
    by (auto simp: cleanupContainer_def ext_refl split: prod.splits option.splits sum.splits)
qed

lemma ContainerRm_guarded_ext:
  "ext (\<lambda>e. True) (emit EvSetRemovalInProgress w) (snd (ContainerRm_guarded en name config w))"
proof -
  let ?w = "emit EvSetRemovalInProgress w"
  let ?w1 = "?w\<lparr>ctr := (ctr ?w)\<lparr>RemovalInProgress := True\<rparr>\<rparr>"
  have a: "ext (\<lambda>e. True) ?w (snd (rmLink en name ?w1))"
    using rmLink_ext[of ?w1 en name] by simp
  have b: "ext (\<lambda>e. True) ?w (snd (cleanupContainer en config ?w1))"
    using cleanupContainer_ext[of ?w1 en config] by simp
  show ?thesis
    using a b
    by (auto simp: ContainerRm_guarded_def Let_def ResetRemovalInProgress_def ext_refl
        split: prod.splits option.splits intro!: ext_emit)
qed

lemma in_since: "ext P w w1 \<Longrightarrow> ext Q (emit x w1) w' \<Longrightarrow> x \<in> set (since w w')"
  by (auto simp: ext_iff since_def)

lemma ContainerRm_guarded_busy:
  "RemovalInProgress (ctr w) \<Longrightarrow>
   fst (ContainerRm_guarded en name config w) =
     fail (Conflict (ErrNew (''removal of container '' @ name @ '' is already in progress'')))"
  by (simp add: ContainerRm_guarded_def Let_def)

lemma ext_not_in: "ext (\<lambda>e. e \<noteq> x) w w' \<Longrightarrow> x \<notin> set (since w w')"
  by (auto simp: ext_def list_all_iff)


text \<open>
  Claim C7, as amended. For a container the name resolves to, the second version of
  \<open>ContainerRm\<close> skips the removal-in-progress guard and goes straight to
  \<open>onlyCleanupContainer\<close> when the process identifier is 0, or is positive and the
  probe reports the process dead; otherwise it attempts the guard, and returns a
  conflict error when a removal is already in progress. The first version never consults
  the probe: it skips the guard when the process identifier is 0 and attempts it for
  every other container.
\<close>

theorem ContainerRm_guard:
  assumes "GetContainer name w = Inr ()"
  shows
    "(Pid (ctr w) = 0 \<longrightarrow>
        ContainerRm2 en name config w = onlyCleanupContainer2 en config w \<and>
        EvSetRemovalInProgress \<notin> set (since w (snd (ContainerRm2 en name config w)))) \<and>
     (0 < Pid (ctr w) \<and> \<not> fst (pidExists2 en (Pid (ctr w)) w) \<longrightarrow>
        ContainerRm2 en name config w =
          onlyCleanupContainer2 en config (snd (pidExists2 en (Pid (ctr w)) w)) \<and>
        EvSetRemovalInProgress \<notin> set (since w (snd (ContainerRm2 en name config w)))) \<and>
     (Pid (ctr w) \<noteq> 0 \<and> (0 < Pid (ctr w) \<longrightarrow> fst (pidExists2 en (Pid (ctr w)) w)) \<longrightarrow>
        EvSetRemovalInProgress \<in> set (since w (snd (ContainerRm2 en name config w))) \<and>
        (RemovalInProgress (ctr w) \<longrightarrow>
           fst (ContainerRm2 en name config w) =
             fail (Conflict (ErrNew (''removal of container '' @ name @ '' is already in progress''))))) \<and>
     (Pid (ctr w) = 0 \<longrightarrow>
        ContainerRm1 en name config w =
          (nil, emit EvUpdateSince (snd (onlyCleanupContainer1 en config True w))) \<and>
        EvSetRemovalInProgress \<notin> set (since w (snd (ContainerRm1 en name config w)))) \<and>
     (Pid (ctr w) \<noteq> 0 \<longrightarrow>
        EvSetRemovalInProgress \<in> set (since w (snd (ContainerRm1 en name config w))) \<and>
        (RemovalInProgress (ctr w) \<longrightarrow>
           fst (ContainerRm1 en name config w) =
             fail (Conflict (ErrNew (''removal of container '' @ name @ '' is already in progress'')))))"
proof (intro conjI impI)
  assume p: "Pid (ctr w) = 0"
  then show "ContainerRm2 en name config w = onlyCleanupContainer2 en config w"
    using assms by (simp add: ContainerRm2_def)
  then show "EvSetRemovalInProgress \<notin> set (since w (snd (ContainerRm2 en name config w)))"
    using ext_not_in[OF onlyCleanupContainer2_ext[of w en config]] by simp
next
  let ?w1 = "snd (pidExists2 en (Pid (ctr w)) w)"
  assume p: "0 < Pid (ctr w) \<and> \<not> fst (pidExists2 en (Pid (ctr w)) w)"
  then show eq: "ContainerRm2 en name config w = onlyCleanupContainer2 en config ?w1"
    using assms by (auto simp: ContainerRm2_def split: prod.splits)
  have "ext (\<lambda>e. e \<noteq> EvSetRemovalInProgress) w (snd (onlyCleanupContainer2 en config ?w1))"
    by (rule ext_trans[OF pidExists2_ext onlyCleanupContainer2_ext])
  then show "EvSetRemovalInProgress \<notin> set (since w (snd (ContainerRm2 en name config w)))"
    unfolding eq by (rule ext_not_in)
next
  let ?w1 = "snd (pidExists2 en (Pid (ctr w)) w)"
  assume p: "Pid (ctr w) \<noteq> 0 \<and> (0 < Pid (ctr w) \<longrightarrow> fst (pidExists2 en (Pid (ctr w)) w))"
  have eq: "ContainerRm2 en name config w =
      ContainerRm_guarded en name config (if 0 < Pid (ctr w) then ?w1 else w)"
    using assms p by (auto simp: ContainerRm2_def split: prod.splits)
  have pre: "ext (\<lambda>e. True) w (if 0 < Pid (ctr w) then ?w1 else w)"
    using ext_mono[OF pidExists2_ext[of w en "Pid (ctr w)"], of "\<lambda>e. True"] by (simp add: ext_refl)
  show "EvSetRemovalInProgress \<in> set (since w (snd (ContainerRm2 en name config w)))"
    unfolding eq by (rule in_since[OF pre ContainerRm_guarded_ext])
  show "fst (ContainerRm2 en name config w) =
      fail (Conflict (ErrNew (''removal of container '' @ name @ '' is already in progress'')))"
    if "RemovalInProgress (ctr w)"
    unfolding eq using that
    by (cases "0 < Pid (ctr w)") (simp_all add: ContainerRm_guarded_busy pidExists2_ctr)
next
  assume p: "Pid (ctr w) = 0"
  then show eq: "ContainerRm1 en name config w =
      (nil, emit EvUpdateSince (snd (onlyCleanupContainer1 en config True w)))"
    using assms by (simp add: ContainerRm1_def split: prod.splits)
  have "ext (\<lambda>e. e \<noteq> EvSetRemovalInProgress) w
      (emit EvUpdateSince (snd (onlyCleanupContainer1 en config True w)))"
    by (rule ext_emit[OF onlyCleanupContainer1_ext]) simp
  then show "EvSetRemovalInProgress \<notin> set (since w (snd (ContainerRm1 en name config w)))"
    unfolding eq by (simp add: ext_not_in)
next
  let ?w1 = "emit (EvRecordsContainerId (ID (ctr w))) w"
  assume p: "Pid (ctr w) \<noteq> 0"
  have eq: "ContainerRm1 en name config w = ContainerRm_guarded en name config ?w1"
    using assms p by (simp add: ContainerRm1_def)
  have pre: "ext (\<lambda>e. True) w ?w1" by (simp add: ext_iff)
  show "EvSetRemovalInProgress \<in> set (since w (snd (ContainerRm1 en name config w)))"
    unfolding eq by (rule in_since[OF pre ContainerRm_guarded_ext])
  show "fst (ContainerRm1 en name config w) =
      fail (Conflict (ErrNew (''removal of container '' @ name @ '' is already in progress'')))"
    if "RemovalInProgress (ctr w)"
    unfolding eq using that by (simp add: ContainerRm_guarded_busy)
qed


theorem ContainerRm_guard_witness:
  "GetContainer ''c1'' w_exited = Inr () \<and> Pid (ctr w_exited) = 0 \<and>
   ContainerRm2 env0 ''c1'' cfg0 w_exited = onlyCleanupContainer2 env0 cfg0 w_exited \<and>
   GetContainer ''c1'' w_dead_pid = Inr () \<and> 0 < Pid (ctr w_dead_pid) \<and>
   \<not> fst (pidExists2 env0 (Pid (ctr w_dead_pid)) w_dead_pid) \<and>
   fst (ContainerRm2 env0 ''c1'' cfg0 w_dead_pid) = nil \<and>
   EvSetRemovalInProgress \<notin> set (since w_dead_pid (snd (ContainerRm2 env0 ''c1'' cfg0 w_dead_pid))) \<and>
   GetContainer ''c1'' w_busy = Inr () \<and> Pid (ctr w_busy) \<noteq> 0 \<and>
   fst (pidExists2 env0 (Pid (ctr w_busy)) w_busy) \<and> RemovalInProgress (ctr w_busy) \<and>
   fst (ContainerRm2 env0 ''c1'' cfg0 w_busy) =
     fail (Conflict (ErrNew ''removal of container c1 is already in progress'')) \<and>
   fst (ContainerRm1 env0 ''c1'' cfg0 w_busy) =
     fail (Conflict (ErrNew ''removal of container c1 is already in progress''))"
  using ContainerRm_guard [of "''c1''" w_exited env0 cfg0]
        ContainerRm_guard [of "''c1''" w_dead_pid env0 cfg0]
        ContainerRm_guard [of "''c1''" w_busy env0 cfg0]
  by (simp add: rm_defs probe_defs since_def emit_def SIGKILL_def releaseNames_def input_defs
      w_dead_pid_def w_busy_def Let_def)

text \<open>
  The claim as it was stated fails on the first version of \<open>ContainerRm\<close>: the process
  of the container, number 7, is dead for the probe, and still the guard is attempted
  and the call returns the conflict error, with no cleanup.
\<close>

theorem ContainerRm1_never_probes:
  "Pid (ctr w_dead_pid) = 7 \<and> \<not> pidExists1 env0 7 w_dead_pid \<and>
   fst (ContainerRm1 env0 ''c1'' cfg0 w_dead_pid) =
     fail (Conflict (ErrNew ''removal of container c1 is already in progress'')) \<and>
   since w_dead_pid (snd (ContainerRm1 env0 ''c1'' cfg0 w_dead_pid)) =
     [EvRecordsContainerId ''c1'', EvSetRemovalInProgress]"
  by (simp add: rm_defs probe_defs since_def emit_def input_defs w_dead_pid_def Let_def)

subsection \<open>The release step and the failures of the cleanup\<close>





lemma cleanupContainer_markDead_Removed [simp]:
  "Removed (ctr (cleanupContainer_markDead w)) = Removed (ctr w)"
  by (simp add: cleanupContainer_markDead_def Let_def)


lemma cleanupContainer_teardown_returns:
  "fst (cleanupContainer_teardown en config w) \<noteq> None"
  by (auto simp: cleanupContainer_teardown_def Let_def split: prod.splits sum.splits option.splits)






end
